(* ===== verification/Prelude.thy ===== *)
theory Prelude
  imports Main "HOL-Library.Word"
begin

text \<open>
  Shared vocabulary of the development: the machine types of the model (bytes,
  32-bit words, Python strings of code points), the Python exceptions that the
  reader raises or that the front-ends catch, and the state/exception monad in
  which every method of the reader is written.  A Python method that mutates
  \<open>self\<close> and may raise is a function from the object's state to a result
  (\<open>Inl\<close> the exception, \<open>Inr\<close> the value) and the new state: the state is
  returned on both branches, because Python keeps every mutation made before the
  exception (a failed \<open>read_uint32\<close> has still advanced the cursor).
\<close>

named_theorems pyop_simps \<open>unfolding rules of the state/exception monad\<close>

type_synonym byte = "8 word"
type_synonym u32 = "32 word"

text \<open>A Python \<open>str\<close> decoded from bytes is a sequence of code points.\<close>

type_synonym ustr = "nat list"

lemma unat_byte_lt [simp]: "unat (b :: byte) < 256"
  using unsigned_less [of b] by simp

subsection \<open>Python exceptions\<close>

text \<open>
  One constructor per exception class that the modelled code can raise, carrying
  what \<open>str(e)\<close> prints.  \<open>UnicodeDecodeError\<close> carries the codec name, the
  byte at the start of the bad range, the range \<open>[start, end)\<close> and the reason,
  as CPython's decoders fill them in.
\<close>

datatype exc =
    FileNotFoundError string
  | ValueError string
  | OSError nat string
  | OverflowError string
  | StructError string
  | UnicodeDecodeError string byte nat nat string
  | TypeError string
  | AttributeError string

text \<open>\<open>except ValueError\<close> also catches its subclass \<open>UnicodeDecodeError\<close>.\<close>

fun is_value_error :: "exc \<Rightarrow> bool" where
  "is_value_error (ValueError _) = True"
| "is_value_error (UnicodeDecodeError _ _ _ _ _) = True"
| "is_value_error _ = False"

subsection \<open>The state/exception monad\<close>

type_synonym ('s, 'a) pyop = "'s \<Rightarrow> (exc + 'a) \<times> 's"

definition ret :: "'a \<Rightarrow> ('s, 'a) pyop" where
  "ret x = (\<lambda>s. (Inr x, s))"

definition py_raise :: "exc \<Rightarrow> ('s, 'a) pyop" where
  "py_raise e = (\<lambda>s. (Inl e, s))"

definition bindp :: "('s, 'a) pyop \<Rightarrow> ('a \<Rightarrow> ('s, 'b) pyop) \<Rightarrow> ('s, 'b) pyop" where
  "bindp m f = (\<lambda>s. case m s of (Inl e, s') \<Rightarrow> (Inl e, s') | (Inr x, s') \<Rightarrow> f x s')"

text \<open>Lifting a pure computation that may raise.\<close>

definition liftp :: "exc + 'a \<Rightarrow> ('s, 'a) pyop" where
  "liftp r = (\<lambda>s. (r, s))"

lemma ret_apply [pyop_simps]: "ret x s = (Inr x, s)"
  by (simp add: ret_def)

lemma py_raise_apply [pyop_simps]: "py_raise e s = (Inl e, s)"
  by (simp add: py_raise_def)

lemma liftp_apply [pyop_simps]: "liftp r s = (r, s)"
  by (simp add: liftp_def)

lemma bindp_Inl [pyop_simps]: "m s = (Inl e, s') \<Longrightarrow> bindp m f s = (Inl e, s')"
  by (simp add: bindp_def)

lemma bindp_Inr [pyop_simps]: "m s = (Inr x, s') \<Longrightarrow> bindp m f s = f x s'"
  by (simp add: bindp_def)

lemma bindp_fst_Inl: "fst (m s) = Inl e \<Longrightarrow> fst (bindp m f s) = Inl e"
  by (cases "m s") (simp add: bindp_def)

lemma fst_bindp_ret: "fst (bindp m (\<lambda>x. ret (f x)) s) = map_sum id f (fst (m s))"
  by (cases "m s") (auto simp: bindp_def ret_def split: sum.split)

lemma bindp_ret_left [simp]: "bindp (ret x) f = f x"
  by (simp add: bindp_def ret_def)

lemma bindp_ret_right [simp]: "bindp m ret = m"
  by (rule ext) (simp add: bindp_def ret_def split: prod.split sum.split)

lemma bindp_liftp_Inr [simp]: "bindp (liftp (Inr x)) f = f x"
  by (simp add: bindp_def liftp_def)

lemma bindp_assoc: "bindp (bindp m f) g = bindp m (\<lambda>x. bindp (f x) g)"
  by (rule ext) (simp add: bindp_def split: prod.split sum.split)

lemma bindp_raise [simp]: "bindp (py_raise e) f = py_raise e"
  by (simp add: bindp_def py_raise_def)

text \<open>
  The general shape of a bind applied to a state, for case analysis in proofs
  about a whole method.
\<close>

lemma bindp_apply:
  "bindp m f s = (case m s of (Inl e, s') \<Rightarrow> (Inl e, s') | (Inr x, s') \<Rightarrow> f x s')"
  by (simp add: bindp_def)

lemma bindp_eq_Inr:
  "bindp m f s = (Inr y, t) \<longleftrightarrow> (\<exists>x s'. m s = (Inr x, s') \<and> f x s' = (Inr y, t))"
  by (auto simp: bindp_def split: prod.splits sum.splits)

lemma bindp_eq_Inl:
  "bindp m f s = (Inl e, t) \<longleftrightarrow>
     (m s = (Inl e, t) \<or> (\<exists>x s'. m s = (Inr x, s') \<and> f x s' = (Inl e, t)))"
  by (auto simp: bindp_def split: prod.splits sum.splits)

text \<open>Prepending to a result that may be an exception (building a decoded list).\<close>

definition scons :: "'a \<Rightarrow> exc + 'a list \<Rightarrow> exc + 'a list" where
  "scons x r = (case r of Inl e \<Rightarrow> Inl e | Inr xs \<Rightarrow> Inr (x # xs))"

lemma scons_Inl [simp]: "scons x (Inl e) = Inl e"
  and scons_Inr [simp]: "scons x (Inr xs) = Inr (x # xs)"
  by (simp_all add: scons_def)

lemma scons_eq_Inr: "scons x r = Inr ys \<longleftrightarrow> (\<exists>xs. r = Inr xs \<and> ys = x # xs)"
  by (cases r) auto

text \<open>Sequencing pure computations that may raise.\<close>

definition sbind :: "exc + 'a \<Rightarrow> ('a \<Rightarrow> exc + 'b) \<Rightarrow> exc + 'b" where
  "sbind r f = (case r of Inl e \<Rightarrow> Inl e | Inr x \<Rightarrow> f x)"

lemma sbind_Inl [simp]: "sbind (Inl e) f = Inl e"
  and sbind_Inr [simp]: "sbind (Inr x) f = f x"
  by (simp_all add: sbind_def)

subsection \<open>State invariants of monadic operations\<close>

text \<open>
  \<open>preserves P m\<close>: whatever \<open>m\<close> returns or raises, a state satisfying \<open>P\<close>
  is left satisfying \<open>P\<close>.  It composes through \<open>bindp\<close>, so an invariant of
  a whole method follows from the invariants of the calls it makes.
\<close>

definition preserves :: "('s \<Rightarrow> bool) \<Rightarrow> ('s, 'a) pyop \<Rightarrow> bool" where
  "preserves P m \<longleftrightarrow> (\<forall>s. P s \<longrightarrow> P (snd (m s)))"

lemma preserves_ret [intro]: "preserves P (ret x)"
  by (simp add: preserves_def ret_def)

lemma preserves_raise [intro]: "preserves P (py_raise e)"
  by (simp add: preserves_def py_raise_def)

lemma preserves_liftp [intro]: "preserves P (liftp r)"
  by (simp add: preserves_def liftp_def)

lemma preserves_bindp [intro]:
  "preserves P m \<Longrightarrow> (\<And>x. preserves P (f x)) \<Longrightarrow> preserves P (bindp m f)"
  unfolding preserves_def bindp_def
  by (auto split: prod.split sum.split)

lemma preserves_if [intro]:
  "preserves P a \<Longrightarrow> preserves P b \<Longrightarrow> preserves P (if c then a else b)"
  by simp

lemma preservesD: "preserves P m \<Longrightarrow> P s \<Longrightarrow> m s = (r, t) \<Longrightarrow> P t"
  unfolding preserves_def by (metis snd_conv)

end
