(* ===== verification/PyValue.thy ===== *)
theory PyValue
  imports Prelude
begin

text \<open>
  Python values as the front-ends see them, and their rendering to text:
  \<open>str(i)\<close> and \<open>hex(i)\<close> of an int, \<open>repr\<close> of a str and of a dict (the
  decoder returns dicts; \<open>main.py\<close> prints them with an f-string), and
  \<open>str(e)\<close> of every modelled exception.  Strings are HOL strings of 8-bit
  characters: file paths and messages are modelled as Latin-1 text.
\<close>

datatype pyval =
    PNone
  | PInt int
  | PStr string
  | PDict "(string \<times> pyval) list"

type_synonym pydict = "(string \<times> pyval) list"

text \<open>A single quote, which a HOL string literal cannot hold next to its delimiters.\<close>

definition sq :: string where
  "sq = [CHR 0x27]"

subsection \<open>Digits\<close>

text \<open>The digit of value \<open>d < 16\<close>, lowercase as Python prints it.\<close>

definition digit_char :: "nat \<Rightarrow> char" where
  "digit_char d = ''0123456789abcdef'' ! d"

fun dec_nat :: "nat \<Rightarrow> string" where
  "dec_nat n = (if n < 10 then [digit_char n] else dec_nat (n div 10) @ [digit_char (n mod 10)])"

fun hex_nat :: "nat \<Rightarrow> string" where
  "hex_nat n = (if n < 16 then [digit_char n] else hex_nat (n div 16) @ [digit_char (n mod 16)])"

declare dec_nat.simps [simp del] hex_nat.simps [simp del]

text \<open>\<open>str(i)\<close> and \<open>hex(i)\<close> of a Python int.\<close>

definition py_int_str :: "int \<Rightarrow> string" where
  "py_int_str i = (if i < 0 then ''-'' @ dec_nat (nat (- i)) else dec_nat (nat i))"

definition py_hex :: "int \<Rightarrow> string" where
  "py_hex i = (if i < 0 then ''-0x'' @ hex_nat (nat (- i)) else ''0x'' @ hex_nat (nat i))"

text \<open>Two lowercase hex digits, as in the \<open>\x\<close> escapes of \<open>repr\<close>.\<close>

definition hex2 :: "nat \<Rightarrow> string" where
  "hex2 n = [digit_char ((n div 16) mod 16), digit_char (n mod 16)]"

subsection \<open>repr of a str\<close>

text \<open>
  CPython's \<open>unicode_repr\<close>: single quotes unless the text holds a single
  quote and no double quote; the chosen quote and the backslash are escaped,
  tab, newline and carriage return get their short escapes, and the other
  non-printable code points below 256 (controls, DEL, the C1 block, no-break
  space and soft hyphen) become \<open>\xNN\<close>.
\<close>

definition py_printable :: "nat \<Rightarrow> bool" where
  "py_printable c \<longleftrightarrow> (32 \<le> c \<and> c < 127) \<or> (161 \<le> c \<and> c \<noteq> 173)"

definition repr_char :: "char \<Rightarrow> char \<Rightarrow> string" where
  "repr_char q c =
     (let n = (of_char c :: nat) in
      if c = q \<or> c = CHR 0x5C then [CHR 0x5C, c]
      else if c = CHR 0x09 then [CHR 0x5C, CHR ''t'']
      else if c = CHR 0x0A then [CHR 0x5C, CHR ''n'']
      else if c = CHR 0x0D then [CHR 0x5C, CHR ''r'']
      else if py_printable n then [c]
      else [CHR 0x5C, CHR ''x''] @ hex2 n)"

definition py_repr_str :: "string \<Rightarrow> string" where
  "py_repr_str s =
     (let q = (if CHR 0x27 \<in> set s \<and> CHR 0x22 \<notin> set s then CHR 0x22 else CHR 0x27)
      in q # concat (map (repr_char q) s) @ [q])"

subsection \<open>repr and str of a value\<close>

text \<open>\<open>sep.join(parts)\<close>.\<close>

fun py_join :: "string \<Rightarrow> string list \<Rightarrow> string" where
  "py_join sep [] = []"
| "py_join sep [x] = x"
| "py_join sep (x # xs) = x @ sep @ py_join sep xs"

fun py_repr :: "pyval \<Rightarrow> string" where
  "py_repr PNone = ''None''"
| "py_repr (PInt i) = py_int_str i"
| "py_repr (PStr s) = py_repr_str s"
| "py_repr (PDict kvs) =
     ''{'' @ py_join '', '' (map (\<lambda>(k, v). py_repr_str k @ '': '' @ py_repr v) kvs) @ ''}''"

fun py_str :: "pyval \<Rightarrow> string" where
  "py_str (PStr s) = s"
| "py_str v = py_repr v"

text \<open>Truth value of a value, as in \<open>if metadata["header"]:\<close>.\<close>

fun py_truthy :: "pyval \<Rightarrow> bool" where
  "py_truthy PNone = False"
| "py_truthy (PInt i) = (i \<noteq> 0)"
| "py_truthy (PStr s) = (s \<noteq> [])"
| "py_truthy (PDict kvs) = (kvs \<noteq> [])"

subsection \<open>Dictionary access\<close>

text \<open>
  \<open>d.get(k, default)\<close> on a value: a dict answers with its entry or the
  default, any other value has no \<open>get\<close> attribute.
\<close>

definition py_get :: "pyval \<Rightarrow> string \<Rightarrow> pyval \<Rightarrow> exc + pyval" where
  "py_get d k dflt =
     (case d of
        PDict kvs \<Rightarrow> Inr (case map_of kvs k of Some v \<Rightarrow> v | None \<Rightarrow> dflt)
      | PNone \<Rightarrow> Inl (AttributeError (sq @ ''NoneType'' @ sq @ '' object has no attribute '' @ sq @ ''get'' @ sq))
      | PInt _ \<Rightarrow> Inl (AttributeError (sq @ ''int'' @ sq @ '' object has no attribute '' @ sq @ ''get'' @ sq))
      | PStr _ \<Rightarrow> Inl (AttributeError (sq @ ''str'' @ sq @ '' object has no attribute '' @ sq @ ''get'' @ sq)))"

subsection \<open>str of an exception\<close>

definition exc_str :: "exc \<Rightarrow> string" where
  "exc_str e =
     (case e of
        FileNotFoundError p \<Rightarrow> ''[Errno 2] No such file or directory: '' @ py_repr_str p
      | ValueError m \<Rightarrow> m
      | OSError n m \<Rightarrow> ''[Errno '' @ dec_nat n @ ''] '' @ m
      | OverflowError m \<Rightarrow> m
      | StructError m \<Rightarrow> m
      | UnicodeDecodeError codec b st en reason \<Rightarrow>
          sq @ codec @ sq @ '' codec can'' @ sq @ ''t decode '' @
          (if en = Suc st
           then ''byte 0x'' @ hex2 (unat b) @ '' in position '' @ dec_nat st
           else ''bytes in position '' @ dec_nat st @ ''-'' @ dec_nat (en - 1)) @
          '': '' @ reason
      | TypeError m \<Rightarrow> m
      | AttributeError m \<Rightarrow> m)"

text \<open>
  The rendering equations, for evaluating the text of a concrete value or
  exception with \<open>simp\<close>.
\<close>

lemmas py_text_eval =
  py_repr_str_def repr_char_def py_printable_def py_int_str_def py_hex_def
  dec_nat.simps hex_nat.simps digit_char_def hex2_def sq_def exc_str_def Let_def

end
