(* ===== verification/PyFile.thy ===== *)
theory PyFile
  imports PyValue
begin

text \<open>
  The byte source: the file system the reader opens paths in, and the file
  object that \<open>open(path, 'rb')\<close> returns (CPython's \<open>BufferedReader\<close> over a
  regular file).  Its state is the file's bytes, the stream position and
  whether it is closed.  \<open>read\<close>, \<open>seek\<close>, \<open>tell\<close> and \<open>close\<close> are modelled
  with the argument checks CPython makes before it touches the file, in the
  order it makes them.  The file's bytes do not change while it is open (the
  reader never writes, and nothing else is modelled writing).
\<close>

record pyfile =
  fdata :: "byte list"
  fpos :: nat
  fclosed :: bool

text \<open>Regular files by path; a path outside the domain does not exist.\<close>

type_synonym filesystem = "string \<rightharpoonup> byte list"

definition py_open_rb :: "filesystem \<Rightarrow> string \<Rightarrow> exc + pyfile" where
  "py_open_rb fs p =
     (case fs p of
        None \<Rightarrow> Inl (FileNotFoundError p)
      | Some d \<Rightarrow> Inr \<lparr>fdata = d, fpos = 0, fclosed = False\<rparr>)"

text \<open>The range of \<open>Py_ssize_t\<close> and \<open>off_t\<close> on a 64-bit platform.\<close>

definition ssize_max :: int where
  "ssize_max = 2 ^ 63 - 1"

definition fits_ssize :: "int \<Rightarrow> bool" where
  "fits_ssize n \<longleftrightarrow> - ssize_max - 1 \<le> n \<and> n \<le> ssize_max"

text \<open>
  \<open>f.read(n)\<close>: the size must fit a \<open>Py_ssize_t\<close> and be at least \<open>-1\<close>;
  \<open>-1\<close> reads to the end; otherwise at most \<open>n\<close> bytes from the position,
  fewer at the end of the file (a short read, not an error), none past it.
\<close>

definition file_read :: "int \<Rightarrow> (pyfile, byte list) pyop" where
  "file_read n f =
     (if \<not> fits_ssize n then (Inl (OverflowError ''Python int too large to convert to C ssize_t''), f)
      else if n < -1 then (Inl (ValueError ''read length must be non-negative or -1''), f)
      else if fclosed f then (Inl (ValueError ''read of closed file''), f)
      else
        (let got = (if n = -1 then drop (fpos f) (fdata f)
                    else take (nat n) (drop (fpos f) (fdata f)))
         in (Inr got, f\<lparr>fpos := fpos f + length got\<rparr>)))"

text \<open>
  \<open>f.seek(target)\<close> from the start of the file: closed files refuse, the
  target must fit an \<open>off_t\<close>, and \<open>lseek\<close> refuses a negative offset with
  \<open>EINVAL\<close>.  Any offset past the end is accepted.  It returns the new position.
\<close>

definition file_seek :: "int \<Rightarrow> (pyfile, nat) pyop" where
  "file_seek t f =
     (if fclosed f then (Inl (ValueError ''seek of closed file''), f)
      else if \<not> fits_ssize t then (Inl (ValueError ''cannot fit 'int' into an offset-sized integer''), f)
      else if t < 0 then (Inl (OSError 22 ''Invalid argument''), f)
      else (Inr (nat t), f\<lparr>fpos := nat t\<rparr>))"

definition file_tell :: "(pyfile, nat) pyop" where
  "file_tell f =
     (if fclosed f then (Inl (ValueError ''I/O operation on closed file.''), f)
      else (Inr (fpos f), f))"

text \<open>\<open>f.close()\<close>; closing a closed file does nothing.\<close>

definition file_close :: "pyfile \<Rightarrow> pyfile" where
  "file_close f = f\<lparr>fclosed := True\<rparr>"

text \<open>\<open>os.path.getsize(path)\<close>.\<close>

definition getsize :: "filesystem \<Rightarrow> string \<Rightarrow> exc + nat" where
  "getsize fs p = (case fs p of None \<Rightarrow> Inl (FileNotFoundError p) | Some d \<Rightarrow> Inr (length d))"

subsection \<open>Behaviour of the file operations\<close>

lemma py_open_rb_Inr:
  "py_open_rb fs p = Inr f \<longleftrightarrow> (\<exists>d. fs p = Some d \<and> f = \<lparr>fdata = d, fpos = 0, fclosed = False\<rparr>)"
  by (auto simp: py_open_rb_def split: option.splits)

lemma py_open_rb_Inl: "py_open_rb fs p = Inl e \<longleftrightarrow> fs p = None \<and> e = FileNotFoundError p"
  by (auto simp: py_open_rb_def split: option.splits)

text \<open>A read of a size in range on an open file: the bytes from the position on.\<close>

lemma file_read_open:
  assumes "\<not> fclosed f" and "0 \<le> n" and "n \<le> ssize_max"
  shows "file_read n f =
           (Inr (take (nat n) (drop (fpos f) (fdata f))),
            f\<lparr>fpos := fpos f + min (nat n) (length (fdata f) - fpos f)\<rparr>)"
  using assms by (simp add: file_read_def fits_ssize_def ssize_max_def Let_def)

text \<open>Every read leaves the bytes and the closed flag alone and never moves back.\<close>

lemma file_read_frame:
  assumes "file_read n f = (r, f')"
  shows "fdata f' = fdata f" and "fclosed f' = fclosed f" and "fpos f \<le> fpos f'"
  using assms by (auto simp: file_read_def Let_def split: if_splits)

text \<open>The position advances by exactly the number of bytes returned.\<close>

lemma file_read_advance:
  assumes "file_read n f = (Inr got, f')"
  shows "fpos f' = fpos f + length got"
  using assms by (auto simp: file_read_def Let_def split: if_splits)

lemma file_read_error_state: "file_read n f = (Inl e, f') \<Longrightarrow> f' = f"
  by (auto simp: file_read_def Let_def split: if_splits)

lemma file_seek_frame:
  assumes "file_seek t f = (r, f')"
  shows "fdata f' = fdata f" and "fclosed f' = fclosed f"
  using assms by (auto simp: file_seek_def split: if_splits)

lemma file_seek_Inr: "file_seek t f = (Inr p, f') \<Longrightarrow> fpos f' = p \<and> int p = t"
  by (auto simp: file_seek_def split: if_splits)

lemma file_seek_error_state: "file_seek t f = (Inl e, f') \<Longrightarrow> f' = f"
  by (auto simp: file_seek_def split: if_splits)

end
