(* ===== verification/Codec.thy ===== *)
theory Codec
  imports PyValue
begin

text \<open>
  The byte-level decoders the reader calls: \<open>struct.unpack\<close> with the formats
  \<open>'<I'\<close>, \<open>'<i'\<close> and \<open>'<f'\<close> (little-endian 32-bit unsigned, signed and
  IEEE single), and the text codecs \<open>bytes.decode('utf-8')\<close> and
  \<open>bytes.decode('utf-16-le')\<close> followed by \<open>str.rstrip('\0')\<close>.  They are
  Python library functions, modelled after CPython's behaviour, with every
  error the reader can meet: a buffer that is not 4 bytes long, an invalid
  UTF-8 or UTF-16 sequence.  Each decoder comes with its encoder and the
  round-trip laws.
\<close>

subsection \<open>Little-endian integers\<close>

fun le_nat :: "byte list \<Rightarrow> nat" where
  "le_nat [] = 0"
| "le_nat (b # bs) = unat b + 256 * le_nat bs"

fun le_bytes :: "nat \<Rightarrow> nat \<Rightarrow> byte list" where
  "le_bytes 0 v = []"
| "le_bytes (Suc n) v = of_nat (v mod 256) # le_bytes n (v div 256)"

text \<open>
  \<open>struct.unpack('<I', data)[0]\<close>: exactly four bytes, or \<open>struct.error\<close>.
  The value is kept as the 32-bit word it is; Python's int is its \<open>uint\<close>.
\<close>

definition unpack_u32 :: "byte list \<Rightarrow> exc + u32" where
  "unpack_u32 bs =
     (if length bs = 4 then Inr (of_nat (le_nat bs))
      else Inl (StructError ''unpack requires a buffer of 4 bytes''))"

text \<open>\<open>struct.unpack('<i', data)[0]\<close>: the same bytes read in two's complement.\<close>

definition unpack_i32 :: "byte list \<Rightarrow> exc + int" where
  "unpack_i32 bs = map_sum id sint (unpack_u32 bs)"

subsection \<open>IEEE single precision\<close>

text \<open>
  \<open>struct.unpack('<f', data)[0]\<close> widens the single to a Python float, which
  holds it exactly: a finite value is \<open>(-1)^s * m * 2^e\<close>, kept as the triple
  (so that \<open>-0.0\<close> stays apart from \<open>0.0\<close>), or an infinity, or a NaN.
\<close>

datatype pyfloat = FloatVal bool nat int | FloatInf bool | FloatNaN

definition f32_of_bits :: "nat \<Rightarrow> pyfloat" where
  "f32_of_bits w =
     (let s = (w div 2 ^ 31 = 1); e = (w div 2 ^ 23) mod 256; m = w mod 2 ^ 23 in
      if e = 255 then (if m = 0 then FloatInf s else FloatNaN)
      else if e = 0 then FloatVal s m (-149)
      else FloatVal s (m + 2 ^ 23) (int e - 150))"

definition unpack_f32 :: "byte list \<Rightarrow> exc + pyfloat" where
  "unpack_f32 bs = map_sum id (\<lambda>w. f32_of_bits (unat w)) (unpack_u32 bs)"

subsection \<open>Facts about the integer decoders\<close>

lemma le_nat_bound: "le_nat bs < 2 ^ (8 * length bs)"
proof (induction bs)
  case Nil
  then show ?case by simp
next
  case (Cons b bs)
  have "unat b < 256" by simp
  then have "unat b + 256 * le_nat bs < 256 + 256 * le_nat bs" by simp
  also have "\<dots> \<le> 256 * 2 ^ (8 * length bs)" using Cons.IH by simp
  finally show ?case by (simp add: power_add)
qed

lemma length_le_bytes [simp]: "length (le_bytes n v) = n"
  by (induction n arbitrary: v) auto

text \<open>Stepping \<open>le_bytes\<close> at a numeral width, for evaluation by \<open>simp\<close>.\<close>

lemma le_bytes_numeral:
  "le_bytes (numeral k) v = of_nat (v mod 256) # le_bytes (pred_numeral k) (v div 256)"
  by (subst numeral_eq_Suc) (rule le_bytes.simps(2))

lemma le_bytes_one: "le_bytes 1 v = [of_nat (v mod 256)]"
  using le_bytes.simps(2) [of 0 v] by simp

lemma le_nat_le_bytes: "le_nat (le_bytes n v) = v mod 2 ^ (8 * n)"
proof (induction n arbitrary: v)
  case 0
  then show ?case by simp
next
  case (Suc n)
  have "unat (of_nat (v mod 256) :: byte) = v mod 256"
    by (simp add: unat_of_nat)
  with Suc.IH show ?case
    by (simp add: mod_mult2_eq power_add mult.commute)
qed

lemma le_bytes_le_nat: "le_bytes (length bs) (le_nat bs) = bs"
proof (induction bs)
  case Nil
  then show ?case by simp
next
  case (Cons b bs)
  have lt: "unat b < 256" by simp
  then have "(unat b + 256 * le_nat bs) mod 256 = unat b" by simp
  moreover from lt have "(unat b + 256 * le_nat bs) div 256 = le_nat bs" by simp
  ultimately show ?case using Cons.IH by simp
qed

text \<open>The '<I' round trip: the four little-endian bytes of a word unpack to it,
  and an unpack succeeds only on the four bytes of its result.\<close>

lemma unpack_u32_le_bytes: "unpack_u32 (le_bytes 4 (unat w)) = Inr w"
proof -
  have "unat w < 2 ^ 32" using unsigned_less [of w] by simp
  then have "le_nat (le_bytes 4 (unat w)) = unat w" by (simp add: le_nat_le_bytes)
  then show ?thesis by (simp add: unpack_u32_def)
qed

lemma unpack_u32_Inr:
  assumes "unpack_u32 bs = Inr w"
  shows "length bs = 4" and "unat w = le_nat bs" and "bs = le_bytes 4 (unat w)"
proof -
  from assms show len: "length bs = 4" by (simp add: unpack_u32_def split: if_splits)
  with le_nat_bound [of bs] have "le_nat bs < 2 ^ 32" by simp
  with assms len show uw: "unat w = le_nat bs"
    by (auto simp: unpack_u32_def unat_of_nat)
  from uw len le_bytes_le_nat [of bs] show "bs = le_bytes 4 (unat w)" by simp
qed

lemma unpack_u32_short: "length bs \<noteq> 4 \<Longrightarrow>
    unpack_u32 bs = Inl (StructError ''unpack requires a buffer of 4 bytes'')"
  by (simp add: unpack_u32_def)

lemma unpack_i32_sint: "unpack_i32 bs = Inr i \<longleftrightarrow> (\<exists>w. unpack_u32 bs = Inr w \<and> i = sint w)"
  by (cases "unpack_u32 bs") (auto simp: unpack_i32_def)

subsection \<open>UTF-16-LE\<close>

text \<open>
  CPython's \<open>utf16_decode\<close> in strict mode, on data that starts at offset
  \<open>i\<close> of the buffer: code units are byte pairs, low byte first; a unit
  outside \<open>D800..DFFF\<close> is a code point; a high surrogate must be followed
  by a low one and the pair gives a supplementary code point; a lone low
  surrogate is an "illegal encoding", a high surrogate followed by another unit
  an "illegal UTF-16 surrogate", a high surrogate at the end "unexpected end
  of data", and an odd byte at the end "truncated data".  The error ranges
  are the ones CPython reports.
\<close>

definition is_low_surrogate :: "nat \<Rightarrow> bool" where
  "is_low_surrogate u \<longleftrightarrow> 56320 \<le> u \<and> u \<le> 57343"

fun utf16_decode_from :: "nat \<Rightarrow> byte list \<Rightarrow> exc + ustr" where
  "utf16_decode_from i [] = Inr []"
| "utf16_decode_from i [b] = Inl (UnicodeDecodeError ''utf-16-le'' b i (Suc i) ''truncated data'')"
| "utf16_decode_from i (b0 # b1 # bs) =
     (let u = unat b0 + 256 * unat b1 in
      if u < 55296 \<or> 57343 < u then scons u (utf16_decode_from (i + 2) bs)
      else if is_low_surrogate u
      then Inl (UnicodeDecodeError ''utf-16-le'' b0 i (i + 2) ''illegal encoding'')
      else (case bs of
              c0 # c1 # rest \<Rightarrow>
                (let w = unat c0 + 256 * unat c1 in
                 if is_low_surrogate w
                 then scons (65536 + (u - 55296) * 1024 + (w - 56320)) (utf16_decode_from (i + 4) rest)
                 else Inl (UnicodeDecodeError ''utf-16-le'' b0 i (i + 2) ''illegal UTF-16 surrogate''))
            | _ \<Rightarrow> Inl (UnicodeDecodeError ''utf-16-le'' b0 i (i + 2 + length bs) ''unexpected end of data'')))"

subsection \<open>UTF-8\<close>

text \<open>
  CPython's strict UTF-8 decoder.  A lead byte fixes how many continuation
  bytes follow and the range each must lie in: the first one's range depends on
  the lead (this rules out overlong forms, surrogates and code points above
  \<open>10FFFF\<close>), the others lie in \<open>80..BF\<close>.  \<open>utf8_lead c\<close> is the
  payload bits of the lead byte and the ranges of its continuation bytes.
\<close>

definition cont_any :: "nat \<times> nat" where
  "cont_any = (128, 191)"

definition utf8_lead :: "nat \<Rightarrow> (nat \<times> (nat \<times> nat) list) option" where
  "utf8_lead c =
     (if c < 128 then Some (c, [])
      else if 194 \<le> c \<and> c \<le> 223 then Some (c mod 32, [cont_any])
      else if c = 224 then Some (c mod 16, [(160, 191), cont_any])
      else if 225 \<le> c \<and> c \<le> 236 then Some (c mod 16, [cont_any, cont_any])
      else if c = 237 then Some (c mod 16, [(128, 159), cont_any])
      else if 238 \<le> c \<and> c \<le> 239 then Some (c mod 16, [cont_any, cont_any])
      else if c = 240 then Some (c mod 8, [(144, 191), cont_any, cont_any])
      else if 241 \<le> c \<and> c \<le> 243 then Some (c mod 8, [cont_any, cont_any, cont_any])
      else if c = 244 then Some (c mod 8, [(128, 143), cont_any, cont_any])
      else None)"

text \<open>
  Reading the continuation bytes: the accumulated code point, or where it
  failed: the data ended, or the byte after \<open>j\<close> good ones was out of range.
\<close>

datatype utf8_fail = EndOfData | BadCont nat

fun utf8_conts :: "(nat \<times> nat) list \<Rightarrow> nat \<Rightarrow> byte list \<Rightarrow> utf8_fail + nat" where
  "utf8_conts [] acc cs = Inr acc"
| "utf8_conts (r # rs) acc [] = Inl EndOfData"
| "utf8_conts ((lo, hi) # rs) acc (c # cs) =
     (if lo \<le> unat c \<and> unat c \<le> hi
      then (case utf8_conts rs (acc * 64 + unat c mod 64) cs of
              Inl (BadCont j) \<Rightarrow> Inl (BadCont (Suc j))
            | r \<Rightarrow> r)
      else Inl (BadCont 0))"

fun utf8_decode_from :: "nat \<Rightarrow> byte list \<Rightarrow> exc + ustr" where
  "utf8_decode_from i [] = Inr []"
| "utf8_decode_from i (b # bs) =
     (case utf8_lead (unat b) of
        None \<Rightarrow> Inl (UnicodeDecodeError ''utf-8'' b i (Suc i) ''invalid start byte'')
      | Some (v, rs) \<Rightarrow>
          (case utf8_conts rs v bs of
             Inl EndOfData \<Rightarrow>
               Inl (UnicodeDecodeError ''utf-8'' b i (Suc i + length bs) ''unexpected end of data'')
           | Inl (BadCont j) \<Rightarrow>
               Inl (UnicodeDecodeError ''utf-8'' b i (Suc i + j) ''invalid continuation byte'')
           | Inr cp \<Rightarrow> scons cp (utf8_decode_from (Suc i + length rs) (drop (length rs) bs))))"

subsection \<open>Decoding a string field\<close>

text \<open>The two encodings \<open>read_string\<close> uses, and \<open>str.rstrip('\0')\<close>.\<close>

datatype codec = UTF8 | UTF16LE

definition py_decode :: "codec \<Rightarrow> byte list \<Rightarrow> exc + ustr" where
  "py_decode c bs = (case c of UTF8 \<Rightarrow> utf8_decode_from 0 bs | UTF16LE \<Rightarrow> utf16_decode_from 0 bs)"

definition rstrip_nul :: "ustr \<Rightarrow> ustr" where
  "rstrip_nul s = rev (dropWhile (\<lambda>c. c = 0) (rev s))"

subsection \<open>Encoders and round trips\<close>

text \<open>
  The specification side of the text codecs: a Unicode scalar value (a code
  point that is not a surrogate), its UTF-8 encoding (shortest form) and its
  UTF-16-LE encoding (a surrogate pair above \<open>FFFF\<close>).  The decoders above
  invert them: a string of scalar values survives encoding and decoding.
\<close>

definition utf8_scalar :: "nat \<Rightarrow> bool" where
  "utf8_scalar cp \<longleftrightarrow> cp < 1114112 \<and> \<not> (55296 \<le> cp \<and> cp \<le> 57343)"

definition utf8_encode :: "nat \<Rightarrow> byte list" where
  "utf8_encode cp =
     (if cp < 128 then [of_nat cp]
      else if cp < 2048 then [of_nat (192 + cp div 64), of_nat (128 + cp mod 64)]
      else if cp < 65536 then
        [of_nat (224 + cp div 4096), of_nat (128 + cp div 64 mod 64), of_nat (128 + cp mod 64)]
      else [of_nat (240 + cp div 262144), of_nat (128 + cp div 4096 mod 64),
            of_nat (128 + cp div 64 mod 64), of_nat (128 + cp mod 64)])"

definition utf16_unit :: "nat \<Rightarrow> byte list" where
  "utf16_unit u = [of_nat (u mod 256), of_nat (u div 256)]"

definition utf16_encode :: "nat \<Rightarrow> byte list" where
  "utf16_encode cp =
     (if cp < 65536 then utf16_unit cp
      else utf16_unit (55296 + (cp - 65536) div 1024) @ utf16_unit (56320 + (cp - 65536) mod 1024))"

lemma unat_of_nat_byte: "n < 256 \<Longrightarrow> unat (of_nat n :: byte) = n"
  by (simp add: unat_of_nat)

lemma mod_add_aligned: "c mod m = 0 \<Longrightarrow> q < m \<Longrightarrow> (c + q) mod m = (q :: nat)"
  by (metis add_0 mod_add_left_eq mod_less)

lemma unat_cont_byte [simp]: "unat (of_nat (128 + n mod 64) :: byte) = 128 + n mod 64"
  by (rule unat_of_nat_byte) simp

lemma cont_byte_mod [simp]: "(128 + n mod 64) mod 64 = n mod (64 :: nat)"
  by (rule mod_add_aligned) simp_all

lemma mod64_le [simp]: "n mod 64 \<le> (63 :: nat)"
  by simp

lemma utf8_decode_encode_1:
  assumes "cp < 128"
  shows "utf8_decode_from i (utf8_encode cp @ bs) = scons cp (utf8_decode_from (Suc i) bs)"
  using assms by (simp add: utf8_encode_def unat_of_nat_byte utf8_lead_def)

lemma utf8_decode_encode_2:
  assumes "128 \<le> cp" "cp < 2048"
  shows "utf8_decode_from i (utf8_encode cp @ bs) = scons cp (utf8_decode_from (i + 2) bs)"
proof -
  have l: "unat (of_nat (192 + cp div 64) :: byte) = 192 + cp div 64"
    using assms by (simp add: unat_of_nat_byte del: of_nat_add)
  have q: "2 \<le> cp div 64 \<and> cp div 64 < 32" using assms by (simp add: le_div_geq div_less_iff_less_mult)
  then have "utf8_lead (192 + cp div 64) = Some (cp div 64, [cont_any])"
    by (simp add: utf8_lead_def mod_add_aligned)
  then show ?thesis using assms
    by (simp add: utf8_encode_def l cont_any_def del: of_nat_add)
qed

lemma utf8_decode_lead:
  assumes "utf8_lead (unat b) = Some (v, rs)" and "utf8_conts rs v cs = Inr cp" and "length cs = length rs"
    and "j = Suc i + length rs"
  shows "utf8_decode_from i (b # cs @ bs) = scons cp (utf8_decode_from j bs)"
proof -
  have "utf8_conts rs v (cs @ bs) = Inr cp"
    using assms(2,3) by (induction rs v cs rule: utf8_conts.induct) (auto split: if_splits sum.splits utf8_fail.splits)
  then show ?thesis using assms by simp
qed

lemma div_4096: "n div 4096 = n div 64 div (64 :: nat)"
  by (simp add: div_mult2_eq)

lemma utf8_digits3: "4096 * (n div 4096) + n div 64 mod 64 * 64 + n mod 64 = (n :: nat)"
proof -
  have "n div 64 div 64 * 64 + n div 64 mod 64 = n div 64" by simp
  moreover have "n div 64 * 64 + n mod 64 = n" by simp
  ultimately show ?thesis unfolding div_4096 by linarith
qed

lemma utf8_decode_encode_3:
  assumes "2048 \<le> cp" "cp < 65536" "utf8_scalar cp"
  shows "utf8_decode_from i (utf8_encode cp @ bs) = scons cp (utf8_decode_from (i + 3) bs)"
proof -
  let ?k = "cp div 4096" and ?m = "cp div 64 mod 64"
  have k: "?k < 16" using assms by (simp add: div_less_iff_less_mult)
  have l: "unat (of_nat (224 + ?k) :: byte) = 224 + ?k"
    using k by (simp add: unat_of_nat_byte del: of_nat_add)
  have lm: "(224 + ?k) mod 16 = ?k" using k by (simp add: mod_add_aligned)
  have m0: "?k = 0 \<Longrightarrow> 32 \<le> ?m"
    using assms(1) by (simp add: div_4096 div_eq_0_iff le_div_geq div_less_iff_less_mult) 
  have m13: "?k = 13 \<Longrightarrow> ?m < 32"
  proof -
    assume "?k = 13"
    then have "cp div 64 div 64 = 13" by (simp add: div_4096)
    moreover have "cp < 57344"
      using \<open>?k = 13\<close> mod_less_divisor [of 4096 cp] div_mult_mod_eq [of cp 4096] by linarith
    then have "cp < 55296" using assms(3) by (simp add: utf8_scalar_def)
    then have "cp div 64 < 864" by (simp add: div_less_iff_less_mult)
    moreover have "cp div 64 = cp div 64 div 64 * 64 + ?m" by simp
    ultimately show "?m < 32" by linarith
  qed
  define lo where "lo = (if ?k = 0 then 160 else 128 :: nat)"
  define hi where "hi = (if ?k = 13 then 159 else 191 :: nat)"
  have lead: "utf8_lead (224 + ?k) = Some (?k, [(lo, hi), cont_any])"
    using k lm by (auto simp: utf8_lead_def cont_any_def lo_def hi_def)
  have r: "lo \<le> 128 + ?m \<and> 128 + ?m \<le> hi"
    using m0 m13 by (auto simp: lo_def hi_def)
  have c: "utf8_conts [(lo, hi), cont_any] ?k [of_nat (128 + ?m), of_nat (128 + cp mod 64)] = Inr cp"
    using r by (simp add: cont_any_def utf8_digits3 del: of_nat_add)
  have e: "utf8_encode cp = of_nat (224 + ?k) # [of_nat (128 + ?m), of_nat (128 + cp mod 64)]"
    using assms by (simp add: utf8_encode_def)
  show ?thesis
    unfolding e by (subst append_Cons, rule utf8_decode_lead [OF _ c]) (simp_all add: lead l del: of_nat_add)
qed

lemma div_262144: "n div 262144 = n div 4096 div (64 :: nat)"
  by (simp add: div_mult2_eq)

lemma utf8_digits4:
  "262144 * (n div 262144) + 4096 * (n div 4096 mod 64) + n div 64 mod 64 * 64 + n mod 64 = (n :: nat)"
proof -
  have "n div 4096 div 64 * 64 + n div 4096 mod 64 = n div 4096" by simp
  with utf8_digits3 [of n] show ?thesis unfolding div_262144 by linarith
qed

lemma utf8_decode_encode_4:
  assumes "65536 \<le> cp" "utf8_scalar cp"
  shows "utf8_decode_from i (utf8_encode cp @ bs) = scons cp (utf8_decode_from (i + 4) bs)"
proof -
  let ?k = "cp div 262144" and ?m = "cp div 4096 mod 64"
  have lt: "cp < 1114112" using assms by (simp add: utf8_scalar_def)
  have k: "?k < 5" using lt by (simp add: div_less_iff_less_mult)
  have l: "unat (of_nat (240 + ?k) :: byte) = 240 + ?k"
    using k by (simp add: unat_of_nat_byte del: of_nat_add)
  have lm: "(240 + ?k) mod 8 = ?k" using k by (simp add: mod_add_aligned)
  have m0: "?k = 0 \<Longrightarrow> 16 \<le> ?m"
    using assms(1) by (simp add: div_262144 div_eq_0_iff le_div_geq div_less_iff_less_mult)
  have m4: "?k = 4 \<Longrightarrow> ?m < 16"
  proof -
    assume "?k = 4"
    then have "cp div 4096 div 64 = 4" by (simp add: div_262144)
    moreover have "cp div 4096 < 272" using lt by (simp add: div_less_iff_less_mult)
    moreover have "cp div 4096 = cp div 4096 div 64 * 64 + ?m" by simp
    ultimately show "?m < 16" by linarith
  qed
  define lo where "lo = (if ?k = 0 then 144 else 128 :: nat)"
  define hi where "hi = (if ?k = 4 then 143 else 191 :: nat)"
  have lead: "utf8_lead (240 + ?k) = Some (?k, [(lo, hi), cont_any, cont_any])"
    using k lm by (auto simp: utf8_lead_def cont_any_def lo_def hi_def)
  have r: "lo \<le> 128 + ?m \<and> 128 + ?m \<le> hi"
    using m0 m4 by (auto simp: lo_def hi_def)
  have c: "utf8_conts [(lo, hi), cont_any, cont_any] ?k
             [of_nat (128 + ?m), of_nat (128 + cp div 64 mod 64), of_nat (128 + cp mod 64)] = Inr cp"
    using r by (simp add: cont_any_def utf8_digits4 del: of_nat_add)
  have e: "utf8_encode cp =
      of_nat (240 + ?k) # [of_nat (128 + ?m), of_nat (128 + cp div 64 mod 64), of_nat (128 + cp mod 64)]"
    using assms by (simp add: utf8_encode_def)
  show ?thesis
    unfolding e by (subst append_Cons, rule utf8_decode_lead [OF _ c]) (simp_all add: lead l del: of_nat_add)
qed

lemma length_utf8_encode:
  "length (utf8_encode cp) = (if cp < 128 then 1 else if cp < 2048 then 2 else if cp < 65536 then 3 else 4)"
  by (simp add: utf8_encode_def)

lemma utf8_decode_encode:
  assumes "utf8_scalar cp"
  shows "utf8_decode_from i (utf8_encode cp @ bs) = scons cp (utf8_decode_from (i + length (utf8_encode cp)) bs)"
  using assms utf8_decode_encode_1 [of cp i bs] utf8_decode_encode_2 [of cp i bs]
    utf8_decode_encode_3 [of cp i bs] utf8_decode_encode_4 [of cp i bs]
  by (simp add: length_utf8_encode)

lemma utf8_decode_concat:
  "\<forall>c \<in> set cs. utf8_scalar c \<Longrightarrow> utf8_decode_from i (concat (map utf8_encode cs)) = Inr cs"
proof (induction cs arbitrary: i)
  case Nil
  then show ?case by simp
next
  case (Cons c cs)
  then show ?case using utf8_decode_encode [of c i "concat (map utf8_encode cs)"] by simp
qed

lemma utf16_unit_value:
  assumes "u < 65536"
  shows "unat (of_nat (u mod 256) :: byte) + 256 * unat (of_nat (u div 256) :: byte) = u"
proof -
  have "u div 256 < 256" using assms by (simp add: div_less_iff_less_mult)
  then show ?thesis by (simp add: unat_of_nat_byte)
qed

lemma utf16_decode_pair:
  assumes "unat b0 + 256 * unat b1 = u" and "unat c0 + 256 * unat c1 = w"
    and "55296 \<le> u" and "u \<le> 57343" and "\<not> is_low_surrogate u" and "is_low_surrogate w"
    and "cp = 65536 + (u - 55296) * 1024 + (w - 56320)" and "j = i + 4"
  shows "utf16_decode_from i (b0 # b1 # c0 # c1 # bs) = scons cp (utf16_decode_from j bs)"
  using assms by (simp add: Let_def)

lemma utf16_decode_encode:
  assumes "utf8_scalar cp"
  shows "utf16_decode_from i (utf16_encode cp @ bs) = scons cp (utf16_decode_from (i + length (utf16_encode cp)) bs)"
proof (cases "cp < 65536")
  case True
  then have "cp < 55296 \<or> 57343 < cp" using assms by (auto simp: utf8_scalar_def)
  with True show ?thesis by (simp add: utf16_encode_def utf16_unit_def utf16_unit_value)
next
  case False
  let ?v = "cp - 65536"
  have v: "?v < 1048576" using assms unfolding utf8_scalar_def by linarith
  then have hd: "?v div 1024 < 1024" by (simp add: div_less_iff_less_mult)
  have hs: "unat (of_nat ((55296 + ?v div 1024) mod 256) :: byte) +
            256 * unat (of_nat ((55296 + ?v div 1024) div 256) :: byte) = 55296 + ?v div 1024"
    using hd by (intro utf16_unit_value) simp
  have ls: "unat (of_nat ((56320 + ?v mod 1024) mod 256) :: byte) +
            256 * unat (of_nat ((56320 + ?v mod 1024) div 256) :: byte) = 56320 + ?v mod 1024"
    by (intro utf16_unit_value) simp
  have low: "is_low_surrogate (56320 + ?v mod 1024)"
    by (simp add: is_low_surrogate_def)
  have nlow: "\<not> is_low_surrogate (55296 + ?v div 1024)"
    using hd by (simp add: is_low_surrogate_def)
  have cp: "65536 + (55296 + ?v div 1024 - 55296) * 1024 + (56320 + ?v mod 1024 - 56320) = cp"
    using False by simp
  have e: "utf16_encode cp =
      [of_nat ((55296 + ?v div 1024) mod 256), of_nat ((55296 + ?v div 1024) div 256),
       of_nat ((56320 + ?v mod 1024) mod 256), of_nat ((56320 + ?v mod 1024) div 256)]"
    using False by (simp add: utf16_encode_def utf16_unit_def)
  show ?thesis
    unfolding e append.simps
    by (rule utf16_decode_pair [OF hs ls]) (use hd nlow low cp in \<open>simp_all\<close>)
qed

lemma utf16_decode_concat:
  "\<forall>c \<in> set cs. utf8_scalar c \<Longrightarrow> utf16_decode_from i (concat (map utf16_encode cs)) = Inr cs"
proof (induction cs arbitrary: i)
  case Nil
  then show ?case by simp
next
  case (Cons c cs)
  then show ?case using utf16_decode_encode [of c i "concat (map utf16_encode cs)"] by simp
qed

end
