(* ===== verification/BaseReader.thy ===== *)
theory BaseReader
  imports PyFile Codec
begin

text \<open>
  The cursor reader, \<open>class BinaryReader\<close> of
  \<open>src/binary_reader/base_reader.py\<close>.  Its state is the record of the
  object's three attributes: the path, the file object once \<open>__enter__\<close> has
  opened it, and the cursor \<open>_position\<close> the reader counts itself.  Each method
  is a monadic operation over that state (theory \<open>Prelude\<close>); \<open>read_header\<close>
  and \<open>read_metadata\<close> are abstract here and defined by the subclass in theory
  \<open>UnrealReader\<close>.  The \<open>with\<close> statement of the callers is
  \<open>with_reader\<close>: construct, enter, run the body, exit on every outcome of the
  body.
\<close>

record reader =
  file_path :: string
  rfile :: "pyfile option"
  position :: int

text \<open>\<open>__init__\<close>: nothing is opened yet.\<close>

definition reader_init :: "string \<Rightarrow> reader" where
  "reader_init p = \<lparr>file_path = p, rfile = None, position = 0\<rparr>"

text \<open>\<open>__enter__\<close>: \<open>self._file = open(self.file_path, 'rb')\<close>.  The cursor
  is left as it is.\<close>

definition reader_enter :: "filesystem \<Rightarrow> (reader, unit) pyop" where
  "reader_enter fs r =
     (case py_open_rb fs (file_path r) of
        Inl e \<Rightarrow> (Inl e, r)
      | Inr f \<Rightarrow> (Inr (), r\<lparr>rfile := Some f\<rparr>))"

text \<open>\<open>__exit__\<close>: close the file if there is one; the attribute keeps the
  closed file object.\<close>

definition reader_exit :: "reader \<Rightarrow> reader" where
  "reader_exit r = (case rfile r of None \<Rightarrow> r | Some f \<Rightarrow> r\<lparr>rfile := Some (file_close f)\<rparr>)"

text \<open>\<open>read_bytes(size)\<close>: the file's short-read policy, and the cursor
  advanced by the number of bytes actually read.\<close>

definition read_bytes :: "int \<Rightarrow> (reader, byte list) pyop" where
  "read_bytes sz r =
     (case rfile r of
        None \<Rightarrow> (Inl (ValueError ''File is not open''), r)
      | Some f \<Rightarrow>
          (case file_read sz f of
             (Inl e, f') \<Rightarrow> (Inl e, r\<lparr>rfile := Some f'\<rparr>)
           | (Inr data, f') \<Rightarrow>
               (Inr data, r\<lparr>rfile := Some f', position := position r + int (length data)\<rparr>)))"

definition read_uint32 :: "(reader, u32) pyop" where
  "read_uint32 = bindp (read_bytes 4) (\<lambda>data. liftp (unpack_u32 data))"

definition read_int32 :: "(reader, int) pyop" where
  "read_int32 = bindp (read_bytes 4) (\<lambda>data. liftp (unpack_i32 data))"

definition read_float :: "(reader, pyfloat) pyop" where
  "read_float = bindp (read_bytes 4) (\<lambda>data. liftp (unpack_f32 data))"

text \<open>
  \<open>read_string(encoding)\<close>: a signed length prefix; zero is the empty string,
  a negative length counts UTF-16 code units (twice as many bytes), a positive
  one counts bytes in the given encoding; trailing NULs are stripped.
\<close>

definition read_string_enc :: "codec \<Rightarrow> (reader, ustr) pyop" where
  "read_string_enc enc =
     bindp read_int32 (\<lambda>len.
       if len = 0 then ret []
       else if len < 0 then
         bindp (read_bytes (\<bar>len\<bar> * 2)) (\<lambda>data. liftp (map_sum id rstrip_nul (py_decode UTF16LE data)))
       else
         bindp (read_bytes len) (\<lambda>data. liftp (map_sum id rstrip_nul (py_decode enc data))))"

text \<open>The default \<open>encoding='utf-8'\<close>.\<close>

abbreviation read_string :: "(reader, ustr) pyop" where
  "read_string \<equiv> read_string_enc UTF8"

text \<open>\<open>seek(position)\<close>: the file seeks first; the cursor is set only when it
  succeeded.\<close>

definition seek :: "int \<Rightarrow> (reader, unit) pyop" where
  "seek p r =
     (case rfile r of
        None \<Rightarrow> (Inl (ValueError ''File is not open''), r)
      | Some f \<Rightarrow>
          (case file_seek p f of
             (Inl e, f') \<Rightarrow> (Inl e, r\<lparr>rfile := Some f'\<rparr>)
           | (Inr _, f') \<Rightarrow> (Inr (), r\<lparr>rfile := Some f', position := p\<rparr>)))"

text \<open>The \<open>position\<close> property: the cursor the reader counts, not the file's.\<close>

definition get_position :: "(reader, int) pyop" where
  "get_position r = (Inr (position r), r)"

subsection \<open>Classes and the with statement\<close>

text \<open>
  \<open>BinaryReader\<close> derives from \<open>ABC\<close> and leaves \<open>read_header\<close> and
  \<open>read_metadata\<close> abstract, so constructing it raises \<open>TypeError\<close> (the
  message of CPython 3.12); \<open>UnrealAssetReader\<close> implements both and adds no
  state.
\<close>

datatype reader_class = BinaryReaderCls | UnrealAssetReaderCls

definition abstract_class_error :: exc where
  "abstract_class_error =
     TypeError (''Can'' @ sq @ ''t instantiate abstract class BinaryReader without an '' @
                ''implementation for abstract methods '' @ sq @ ''read_header'' @ sq @
                '', '' @ sq @ ''read_metadata'' @ sq)"

definition instantiate :: "reader_class \<Rightarrow> string \<Rightarrow> exc + reader" where
  "instantiate cls p =
     (case cls of
        BinaryReaderCls \<Rightarrow> Inl abstract_class_error
      | UnrealAssetReaderCls \<Rightarrow> Inr (reader_init p))"

text \<open>
  \<open>with cls(path) as reader: body\<close>.  A failing constructor or \<open>__enter__\<close>
  raises before the block (and \<open>__exit__\<close> is not run); otherwise the body
  runs and \<open>__exit__\<close> runs after it whether it returned or raised, and does
  not suppress the exception.  The final reader state is returned for the
  resource lemmas.
\<close>

definition with_reader ::
  "filesystem \<Rightarrow> reader_class \<Rightarrow> string \<Rightarrow> (reader, 'a) pyop \<Rightarrow> (exc + 'a) \<times> reader option" where
  "with_reader fs cls p body =
     (case instantiate cls p of
        Inl e \<Rightarrow> (Inl e, None)
      | Inr r \<Rightarrow>
          (case reader_enter fs r of
             (Inl e, r') \<Rightarrow> (Inl e, Some r')
           | (Inr _, r') \<Rightarrow> (case body r' of (res, r'') \<Rightarrow> (res, Some (reader_exit r'')))))"

subsection \<open>The reader over an open file\<close>

text \<open>
  An entered reader whose cursor agrees with its file: the state every read
  starts from after a fresh \<open>__enter__\<close>.  The value at an offset is the
  spec-level reading of the bytes there.
\<close>

definition reader_at :: "string \<Rightarrow> byte list \<Rightarrow> nat \<Rightarrow> reader" where
  "reader_at x d p = \<lparr>file_path = x, rfile = Some \<lparr>fdata = d, fpos = p, fclosed = False\<rparr>, position = int p\<rparr>"

definition u32_at :: "byte list \<Rightarrow> nat \<Rightarrow> u32" where
  "u32_at d p = of_nat (le_nat (take 4 (drop p d)))"

lemma read_bytes_reader_at:
  assumes "0 \<le> n" and "n \<le> ssize_max"
  shows "read_bytes n (reader_at x d p) =
           (Inr (take (nat n) (drop p d)), reader_at x d (p + min (nat n) (length d - p)))"
  using assms by (simp add: read_bytes_def reader_at_def file_read_open)

text \<open>A read of four bytes, in full or short.\<close>

lemma read_bytes_4_full:
  "p + 4 \<le> length d \<Longrightarrow> read_bytes 4 (reader_at x d p) = (Inr (take 4 (drop p d)), reader_at x d (p + 4))"
  by (simp add: read_bytes_reader_at ssize_max_def)

lemma read_bytes_4_short:
  "length d < p + 4 \<Longrightarrow>
     read_bytes 4 (reader_at x d p) = (Inr (take 4 (drop p d)), reader_at x d (max p (length d)))"
  by (simp add: read_bytes_reader_at ssize_max_def max_def)

lemma unpack_u32_at: "p + 4 \<le> length d \<Longrightarrow> unpack_u32 (take 4 (drop p d)) = Inr (u32_at d p)"
  by (simp add: unpack_u32_def u32_at_def)

lemmas read4_simps = read_bytes_4_full read_bytes_4_short unpack_u32_at unpack_u32_short

lemma read_uint32_reader_at:
  "read_uint32 (reader_at x d p) =
     (if p + 4 \<le> length d then (Inr (u32_at d p), reader_at x d (p + 4))
      else (Inl (StructError ''unpack requires a buffer of 4 bytes''), reader_at x d (max p (length d))))"
  by (cases "p + 4 \<le> length d") (simp_all add: read_uint32_def bindp_def read4_simps liftp_def)

lemma read_int32_reader_at:
  "read_int32 (reader_at x d p) =
     (if p + 4 \<le> length d then (Inr (sint (u32_at d p)), reader_at x d (p + 4))
      else (Inl (StructError ''unpack requires a buffer of 4 bytes''), reader_at x d (max p (length d))))"
  by (cases "p + 4 \<le> length d") (simp_all add: read_int32_def unpack_i32_def bindp_def read4_simps liftp_def)

text \<open>A string's length prefix is at most \<open>2^31\<close> in absolute value, so the
  byte count it asks for always fits the file's size argument.\<close>

lemma abs_sint_u32_bound: "\<bar>sint (w :: u32)\<bar> \<le> 2 ^ 31"
  using sint_ge [of w] sint_lt [of w] by simp

lemma read_uint32_full:
  "p + 4 \<le> length d \<Longrightarrow> read_uint32 (reader_at x d p) = (Inr (u32_at d p), reader_at x d (p + 4))"
  by (simp add: read_uint32_reader_at)

text \<open>The signed 32-bit value at an offset, as \<open>read_int32\<close> returns it.\<close>

definition i32_at :: "byte list \<Rightarrow> nat \<Rightarrow> int" where
  "i32_at d p = sint (u32_at d p)"

lemma u32_at_le_bytes_at: "u32_at (pre @ le_bytes 4 (unat w) @ rest) (length pre) = w"
proof -
  have "unat w < 2 ^ 32" using unsigned_less [of w] by simp
  then show ?thesis by (simp add: u32_at_def le_nat_le_bytes)
qed

lemma u32_at_le_bytes: "u32_at (le_bytes 4 (unat w) @ rest) 0 = w"
  using u32_at_le_bytes_at [of "[]" w rest] by simp

text \<open>A length prefix as a writer lays it down: a count below \<open>2^31\<close>, or
  the two's complement of a negative one.\<close>

lemma sint_of_nat_neg: "0 < k \<Longrightarrow> k \<le> 2 ^ 31 \<Longrightarrow> sint (word_of_nat (2 ^ 32 - k) :: u32) = - int k"
proof -
  assume k: "0 < k" "k \<le> 2 ^ 31"
  have "take_bit 32 (int (2 ^ 32 - k)) = take_bit 32 (- int k)"
    using k by (simp add: take_bit_eq_mod of_nat_diff mod_diff_left_eq [symmetric])
  then have "signed_take_bit 31 (int (2 ^ 32 - k)) = signed_take_bit 31 (- int k)"
    by (simp add: signed_take_bit_eq_iff_take_bit_eq)
  also have "\<dots> = - int k" using k by (simp add: signed_take_bit_int_eq_self)
  finally show ?thesis by (simp add: signed_of_nat)
qed

lemma i32_at_prefix_pos: "n < 2 ^ 31 \<Longrightarrow> i32_at (pre @ le_bytes 4 n @ rest) (length pre) = int n"
proof -
  assume n: "n < 2 ^ 31"
  then have "unat (of_nat n :: u32) = n" by (simp add: unat_of_nat)
  then have "u32_at (pre @ le_bytes 4 n @ rest) (length pre) = of_nat n"
    using u32_at_le_bytes_at [of pre "of_nat n" rest] by simp
  with n show ?thesis by (simp add: i32_at_def signed_of_nat signed_take_bit_int_eq_self)
qed

lemma i32_at_prefix_neg:
  "0 < k \<Longrightarrow> k \<le> 2 ^ 31 \<Longrightarrow> i32_at (pre @ le_bytes 4 (2 ^ 32 - k) @ rest) (length pre) = - int k"
proof -
  assume k: "0 < k" "k \<le> 2 ^ 31"
  then have "unat (of_nat (2 ^ 32 - k) :: u32) = 2 ^ 32 - k" by (subst unat_of_nat) simp
  then have u: "u32_at (pre @ le_bytes 4 (2 ^ 32 - k) @ rest) (length pre) = of_nat (2 ^ 32 - k)"
    using u32_at_le_bytes_at [of pre "of_nat (2 ^ 32 - k)" rest] by (simp only:)
  show ?thesis unfolding i32_at_def u using k by (rule sint_of_nat_neg)
qed

lemma read_int32_full:
  "p + 4 \<le> length d \<Longrightarrow> read_int32 (reader_at x d p) = (Inr (i32_at d p), reader_at x d (p + 4))"
  by (simp add: read_int32_reader_at i32_at_def)

lemma read_bytes_count_reader_at:
  assumes "0 \<le> n" and "n \<le> 2 ^ 32"
  shows "read_bytes n (reader_at x d p) =
           (Inr (take (nat n) (drop p d)), reader_at x d (p + min (nat n) (length d - p)))"
  using assms by (simp add: read_bytes_reader_at ssize_max_def)

text \<open>
  \<open>read_string\<close> after a complete prefix: the branch the prefix selects, the
  bytes it asks for (fewer at the end of the file), and the cursor after them.
\<close>

lemma read_string_enc_reader_at:
  assumes "p + 4 \<le> length d"
  shows "read_string_enc enc (reader_at x d p) =
    (let len = i32_at d p; q = p + 4 in
     if len = 0 then (Inr [], reader_at x d q)
     else if len < 0 then
       (map_sum id rstrip_nul (py_decode UTF16LE (take (nat (2 * \<bar>len\<bar>)) (drop q d))),
        reader_at x d (q + min (nat (2 * \<bar>len\<bar>)) (length d - q)))
     else
       (map_sum id rstrip_nul (py_decode enc (take (nat len) (drop q d))),
        reader_at x d (q + min (nat len) (length d - q))))"
proof -
  have b: "\<bar>i32_at d p\<bar> \<le> 2 ^ 31"
    unfolding i32_at_def by (rule abs_sint_u32_bound)
  then have b2: "\<bar>i32_at d p\<bar> * 2 \<le> 2 ^ 32" and b1: "i32_at d p \<le> 2 ^ 32" by auto
  show ?thesis
    using assms b1 b2
    by (simp add: read_string_enc_def bindp_def read_int32_full read_bytes_count_reader_at
        liftp_def ret_def Let_def mult.commute)
qed

subsection \<open>Seeking\<close>

lemma seek_reader_at:
  "seek t (reader_at x d p) =
     (if \<not> fits_ssize t then (Inl (ValueError ''cannot fit 'int' into an offset-sized integer''), reader_at x d p)
      else if t < 0 then (Inl (OSError 22 ''Invalid argument''), reader_at x d p)
      else (Inr (), reader_at x d (nat t)))"
  by (simp add: seek_def reader_at_def file_seek_def)

subsection \<open>A reader that is not open, or no longer open\<close>

lemma read_bytes_not_open: "rfile r = None \<Longrightarrow> read_bytes n r = (Inl (ValueError ''File is not open''), r)"
  by (simp add: read_bytes_def)

lemma seek_not_open: "rfile r = None \<Longrightarrow> seek t r = (Inl (ValueError ''File is not open''), r)"
  by (simp add: seek_def)

lemma read_bytes_closed:
  assumes "rfile r = Some f" and "fclosed f" and "0 \<le> n" and "n \<le> ssize_max"
  shows "read_bytes n r = (Inl (ValueError ''read of closed file''), r)"
  using assms by (simp add: read_bytes_def file_read_def fits_ssize_def ssize_max_def)

lemma reader_exit_closed: "rfile r = Some f \<Longrightarrow> rfile (reader_exit r) = Some (f\<lparr>fclosed := True\<rparr>)"
  by (simp add: reader_exit_def file_close_def)

subsection \<open>The cursor invariant\<close>

text \<open>
  The spec's invariant of the cursor: while a file is held, the reader's own
  count is the file's position.
\<close>

definition cursor_inv :: "reader \<Rightarrow> bool" where
  "cursor_inv r \<longleftrightarrow> (\<forall>f. rfile r = Some f \<longrightarrow> position r = int (fpos f))"

lemma cursor_inv_reader_at [simp]: "cursor_inv (reader_at x d p)"
  by (simp add: cursor_inv_def reader_at_def)

lemma preserves_read_bytes [intro]: "preserves cursor_inv (read_bytes n)"
  unfolding preserves_def cursor_inv_def read_bytes_def
  by (auto split: option.splits prod.splits sum.splits
           dest: file_read_advance file_read_error_state)

lemma preserves_seek [intro]: "preserves cursor_inv (seek t)"
  unfolding preserves_def cursor_inv_def seek_def
  by (auto split: option.splits prod.splits sum.splits dest: file_seek_Inr file_seek_error_state)

text \<open>
  Every composite read is \<open>read_bytes\<close> followed by pure work, so any
  invariant that \<open>read_bytes\<close> keeps is kept by all of them.
\<close>

lemma preserves_reads_of:
  assumes "\<And>n. preserves P (read_bytes n)"
  shows "preserves P read_uint32" and "preserves P read_int32" and "preserves P read_float"
  using assms by (auto simp: read_uint32_def read_int32_def read_float_def)

lemma preserves_read_string_enc_of:
  assumes "\<And>n. preserves P (read_bytes n)"
  shows "preserves P (read_string_enc enc)"
  unfolding read_string_enc_def
  by (intro preserves_bindp preserves_if preserves_ret preserves_liftp assms preserves_reads_of [OF assms])

lemmas preserves_reads [intro] = preserves_reads_of [OF preserves_read_bytes]

lemmas preserves_read_string_enc [intro] = preserves_read_string_enc_of [OF preserves_read_bytes]

lemma cursor_inv_exit: "cursor_inv r \<Longrightarrow> cursor_inv (reader_exit r)"
  by (auto simp: cursor_inv_def reader_exit_def file_close_def split: option.splits)

lemma cursor_inv_enter: "reader_enter fs r = (Inr (), r') \<Longrightarrow> cursor_inv r' \<longleftrightarrow> position r = 0"
  by (auto simp: reader_enter_def cursor_inv_def py_open_rb_def split: option.splits sum.splits)

subsection \<open>The with statement\<close>

lemma reader_exit_reader_at:
  "reader_exit (reader_at x d p) =
     \<lparr>file_path = x, rfile = Some \<lparr>fdata = d, fpos = p, fclosed = True\<rparr>, position = int p\<rparr>"
  by (simp add: reader_exit_def reader_at_def file_close_def)

lemma reader_enter_init:
  "fs p = Some d \<Longrightarrow> reader_enter fs (reader_init p) = (Inr (), reader_at p d 0)"
  by (simp add: reader_enter_def reader_init_def py_open_rb_def reader_at_def)

lemma with_reader_open:
  "fs p = Some d \<Longrightarrow>
     with_reader fs UnrealAssetReaderCls p body =
       (fst (body (reader_at p d 0)), Some (reader_exit (snd (body (reader_at p d 0)))))"
  by (simp add: with_reader_def instantiate_def reader_enter_init split: prod.split)

lemma with_reader_missing:
  "fs p = None \<Longrightarrow> with_reader fs UnrealAssetReaderCls p body = (Inl (FileNotFoundError p), Some (reader_init p))"
  by (simp add: with_reader_def instantiate_def reader_enter_def reader_init_def py_open_rb_def)

lemma with_reader_abstract: "with_reader fs BinaryReaderCls p body = (Inl abstract_class_error, None)"
  by (simp add: with_reader_def instantiate_def)

text \<open>A value a \<open>with\<close> block returns is one its body returned.\<close>

lemma with_reader_Inr:
  "fst (with_reader fs cls p body) = Inr t \<Longrightarrow> \<exists>r. fst (body r) = Inr t"
  by (auto simp: with_reader_def split: sum.splits prod.splits) (metis fst_conv)

subsection \<open>String fields as a writer lays them down\<close>

lemma even_length_utf16_encode: "even (length (concat (map utf16_encode cs)))"
  by (induction cs) (simp_all add: utf16_encode_def utf16_unit_def)

lemma utf8_encode_nonempty: "utf8_encode c \<noteq> []"
  by (simp add: utf8_encode_def)

lemma concat_utf8_encode_Nil: "concat (map utf8_encode cs) = [] \<longleftrightarrow> cs = []"
  by (induction cs) (simp_all add: utf8_encode_nonempty)

text \<open>A UTF-8 string field anywhere in the file, the empty one included.\<close>

lemma read_string_utf8_at:
  assumes "\<forall>c \<in> set cs. utf8_scalar c" and "b = concat (map utf8_encode cs)"
    and "length b < 2 ^ 31" and "d = pre @ le_bytes 4 (length b) @ b @ rest"
  shows "read_string (reader_at x d (length pre)) = (Inr (rstrip_nul cs), reader_at x d (length pre + 4 + length b))"
proof -
  have len: "i32_at d (length pre) = int (length b)" using i32_at_prefix_pos [OF assms(3)] assms(4) by simp
  have bytes: "take (length b) (drop (length pre + 4) d) = b" using assms(4) by simp
  have dec: "py_decode UTF8 b = Inr cs" using assms(1,2) by (simp add: py_decode_def utf8_decode_concat)
  have room: "length pre + 4 \<le> length d" using assms(4) by simp
  show ?thesis
  proof (cases "b = []")
    case True
    then have "cs = []" using assms(2) concat_utf8_encode_Nil by simp
    with True room len show ?thesis by (simp add: read_string_enc_reader_at rstrip_nul_def)
  next
    case False
    with room len bytes dec assms(4) show ?thesis by (simp add: read_string_enc_reader_at Let_def)
  qed
qed

text \<open>
  C10 (roundtrip).  A string field written as a positive length prefix
  followed by the UTF-8 encoding of a string reads back as that string, less
  its trailing NULs, and leaves the cursor just past the field.
\<close>

theorem read_string_utf8_roundtrip:
  assumes "\<forall>c \<in> set cs. utf8_scalar c" and "b = concat (map utf8_encode cs)"
    and "0 < length b" and "length b < 2 ^ 31" and "d = le_bytes 4 (length b) @ b @ rest"
  shows "read_string (reader_at x d 0) = (Inr (rstrip_nul cs), reader_at x d (4 + length b))"
  using read_string_utf8_at [where pre = "[]", OF assms(1,2,4)] assms(5) by simp

text \<open>
  C11 (roundtrip).  A negative length prefix \<open>-k\<close> announces \<open>k\<close> UTF-16
  code units: the field is decoded as UTF-16-LE whatever encoding the caller
  asked for, and the cursor moves past the \<open>2k\<close> bytes.
\<close>

theorem read_string_utf16_roundtrip:
  assumes "\<forall>c \<in> set cs. utf8_scalar c" and "b = concat (map utf16_encode cs)"
    and "0 < length b" and "length b \<le> 2 ^ 32" and "d = le_bytes 4 (2 ^ 32 - length b div 2) @ b @ rest"
  shows "read_string_enc enc (reader_at x d 0) = (Inr (rstrip_nul cs), reader_at x d (4 + length b))"
proof -
  have ev: "even (length b)" using assms(2) even_length_utf16_encode by simp
  then have two_k: "length b = 2 * (length b div 2)" by simp
  have k: "0 < length b div 2" "length b div 2 \<le> 2 ^ 31"
    using two_k assms(3,4) by (linarith, simp)
  have len: "i32_at d 0 = - int (length b div 2)" using i32_at_prefix_neg [OF k, of "[]"] assms(5) by simp
  have two: "nat (2 * \<bar>- int (length b div 2)\<bar>) = length b" using two_k by linarith
  have bytes: "take (length b) (drop 4 d) = b" using assms(5) by simp
  have dec: "py_decode UTF16LE b = Inr cs" using assms(1,2) by (simp add: py_decode_def utf16_decode_concat)
  have "4 \<le> length d" using assms(5) by simp
  then show ?thesis
    using read_string_enc_reader_at [of 0 d enc x] len two bytes dec k assms(5)
    by (simp add: Let_def)
qed

text \<open>The field "hi" in UTF-8, and a single emoji as a UTF-16 surrogate pair.\<close>

theorem read_string_utf8_roundtrip_witness:
  "read_string (reader_at ''s'' [2, 0, 0, 0, 104, 105] 0) = (Inr [104, 105], reader_at ''s'' [2, 0, 0, 0, 104, 105] 6)"
proof -
  have e: "concat (map utf8_encode [104, 105]) = [104, 105]" by (simp add: utf8_encode_def)
  have d: "[2, 0, 0, 0, 104, 105] = le_bytes 4 (length (concat (map utf8_encode [104, 105]))) @
             concat (map utf8_encode [104, 105]) @ []"
    unfolding e by (simp add: le_bytes_numeral le_bytes_one)
  have "read_string (reader_at ''s'' [2, 0, 0, 0, 104, 105] 0) =
          (Inr (rstrip_nul [104, 105]), reader_at ''s'' [2, 0, 0, 0, 104, 105] (4 + length (concat (map utf8_encode [104, 105]))))"
    by (rule read_string_utf8_roundtrip [OF _ refl _ _ d]) (unfold e, simp_all add: utf8_scalar_def)
  then show ?thesis unfolding e by (simp add: rstrip_nul_def)
qed

theorem read_string_utf16_roundtrip_witness:
  "read_string_enc UTF8 (reader_at ''s'' (le_bytes 4 (2 ^ 32 - 2) @ concat (map utf16_encode [128512])) 0) =
     (Inr [128512], reader_at ''s'' (le_bytes 4 (2 ^ 32 - 2) @ concat (map utf16_encode [128512])) 8)"
  using read_string_utf16_roundtrip [of "[128512]" "concat (map utf16_encode [128512])"
      "le_bytes 4 (2 ^ 32 - 2) @ concat (map utf16_encode [128512])" "[]" UTF8 "''s''"]
  by (simp add: utf8_scalar_def utf16_encode_def utf16_unit_def rstrip_nul_def)

subsection \<open>Errors and the end of the file\<close>

text \<open>
  C14 (safety).  After a \<open>with\<close> block the reader cannot read: whatever the
  body did, a read of any size in range raises \<open>ValueError\<close>, "File is not
  open" when \<open>__enter__\<close> failed and "read of closed file" otherwise, and
  changes nothing.
\<close>

theorem with_reader_no_read_after:
  assumes "with_reader fs cls p body = (res, Some r)" and "0 \<le> n" and "n \<le> ssize_max"
  shows "read_bytes n r =
           (Inl (ValueError (if rfile r = None then ''File is not open'' else ''read of closed file'')), r)"
proof (cases "rfile r")
  case None
  then show ?thesis by (simp add: read_bytes_not_open)
next
  case (Some f)
  have "fclosed f"
    using assms(1) Some
    by (auto simp: with_reader_def instantiate_def reader_enter_def reader_init_def reader_exit_def
        file_close_def split: reader_class.splits sum.splits prod.splits option.splits)
  with Some assms(2,3) show ?thesis by (simp add: read_bytes_closed)
qed

theorem with_reader_no_read_after_witness:
  "read_bytes 1 (the (snd (with_reader [''a'' \<mapsto> [1, 2]] UnrealAssetReaderCls ''a'' (read_bytes 1)))) =
     (Inl (ValueError ''read of closed file''),
      the (snd (with_reader [''a'' \<mapsto> [1, 2]] UnrealAssetReaderCls ''a'' (read_bytes 1))))"
proof -
  have w: "with_reader [''a'' \<mapsto> [1, 2]] UnrealAssetReaderCls ''a'' (read_bytes 1) =
      (Inr [1], Some (reader_exit (reader_at ''a'' [1, 2] 1)))"
    by (simp add: with_reader_open read_bytes_reader_at ssize_max_def)
  show ?thesis
    using with_reader_no_read_after [OF w, of 1] by (simp add: w reader_exit_reader_at ssize_max_def)
qed

text \<open>
  C15 (error).  \<open>read_uint32\<close> with fewer than four bytes left raises
  \<open>struct.error\<close>, but only after \<open>read_bytes\<close> has consumed the remaining
  bytes: the cursor ends at the end of the file.
\<close>

theorem read_uint32_truncated:
  assumes "p \<le> length d" and "length d < p + 4"
  shows "read_uint32 (reader_at x d p) =
           (Inl (StructError ''unpack requires a buffer of 4 bytes''), reader_at x d (length d))"
  using assms by (simp add: read_uint32_reader_at max_def)

theorem read_uint32_truncated_witness:
  "read_uint32 (reader_at ''t'' [1, 2, 3, 4, 5] 2) =
     (Inl (StructError ''unpack requires a buffer of 4 bytes''), reader_at ''t'' [1, 2, 3, 4, 5] 5)"
  using read_uint32_truncated [of 2 "[1, 2, 3, 4, 5]" "''t''"] by (simp add: eval_nat_numeral)

text \<open>
  C16 (functional).  Seeking past the end is accepted and moves the cursor
  there; a read from there returns no bytes and leaves the cursor where the
  seek put it.  A negative target raises \<open>OSError\<close> (EINVAL) and moves
  nothing.
\<close>

theorem seek_past_end_then_read:
  assumes "length d \<le> t" and "int t \<le> ssize_max" and "0 \<le> n" and "n \<le> 2 ^ 32" and "q < 0" and "fits_ssize q"
  shows "bindp (seek (int t)) (\<lambda>_. read_bytes n) (reader_at x d p) = (Inr [], reader_at x d t) \<and>
         seek q (reader_at x d p) = (Inl (OSError 22 ''Invalid argument''), reader_at x d p)"
proof
  have "fits_ssize (int t)" using assms(2) by (simp add: fits_ssize_def ssize_max_def)
  then have "seek (int t) (reader_at x d p) = (Inr (), reader_at x d t)" by (simp add: seek_reader_at)
  then show "bindp (seek (int t)) (\<lambda>_. read_bytes n) (reader_at x d p) = (Inr [], reader_at x d t)"
    using assms(1,3,4) by (simp add: bindp_def read_bytes_count_reader_at)
  show "seek q (reader_at x d p) = (Inl (OSError 22 ''Invalid argument''), reader_at x d p)"
    using assms(5,6) by (simp add: seek_reader_at)
qed

theorem seek_past_end_then_read_witness:
  "bindp (seek 10) (\<lambda>_. read_bytes 4) (reader_at ''t'' [1, 2] 0) = (Inr [], reader_at ''t'' [1, 2] 10) \<and>
   seek (-1) (reader_at ''t'' [1, 2] 0) = (Inl (OSError 22 ''Invalid argument''), reader_at ''t'' [1, 2] 0)"
  using seek_past_end_then_read [of "[1, 2]" 10 4 "-1" "''t''" 0] by (simp add: ssize_max_def fits_ssize_def)

subsection \<open>What a string read consumes\<close>

text \<open>A read clipped at the end of the file, as an offset.\<close>

lemma add_min_diff: "q \<le> n \<Longrightarrow> q + min k (n - q) = min n (q + k)"
  for q n k :: nat
  by simp

text \<open>
  C24 (functional).  After a complete length prefix, \<open>read_string\<close> leaves
  the cursor exactly after the prefix and the bytes the prefix announces
  (twice its absolute value for a negative prefix, none for 0), or at the end
  of the file when fewer remain, whatever the encoding and whether the bytes
  decode or the decoder raises.
\<close>

theorem read_string_consumes:
  assumes "p + 4 \<le> length d"
  shows "snd (read_string_enc enc (reader_at x d p)) =
           reader_at x d (min (length d)
             (p + 4 + nat (if i32_at d p < 0 then 2 * \<bar>i32_at d p\<bar> else i32_at d p)))"
  using assms by (simp add: read_string_enc_reader_at Let_def add_min_diff)

text \<open>A prefix of 3 with two bytes left: the read stops at the end of the file.\<close>

theorem read_string_consumes_witness:
  "snd (read_string_enc UTF8 (reader_at ''s'' [3, 0, 0, 0, 104, 105] 0)) = reader_at ''s'' [3, 0, 0, 0, 104, 105] 6"
proof -
  have "i32_at [3, 0, 0, 0, 104, 105] 0 = 3" by (simp add: i32_at_def u32_at_def)
  then show ?thesis using read_string_consumes [of 0 "[3, 0, 0, 0, 104, 105]" UTF8 "''s''"]
    by (simp add: eval_nat_numeral)
qed

end
