(* ===== verification/UnrealReader.thy ===== *)
theory UnrealReader
  imports BaseReader
begin

text \<open>
  \<open>class UnrealAssetReader(BinaryReader)\<close> of
  \<open>src/binary_reader/unreal_reader.py\<close>: the magic check and the four
  header fields, the three metadata fields, and the name table.  The methods
  return Python dicts, modelled as association lists in insertion order.
  Beside them, an abstract view of the layout: the header and metadata as
  records of 32-bit fields, the pure parser of a byte string into them and the
  encoder back; the refinement lemmas show that the stateful methods compute
  the parser on the file's bytes and leave the cursor after the fields.
\<close>

definition MAGIC :: u32 where
  "MAGIC = 0xC1832A9E"

definition read_header :: "(reader, pydict) pyop" where
  "read_header =
     bindp read_uint32 (\<lambda>magic.
       if magic \<noteq> MAGIC then py_raise (ValueError ''Not a valid .uasset file'')
       else
         bindp read_uint32 (\<lambda>legacy_version.
         bindp read_uint32 (\<lambda>legacy_ue3_version.
         bindp read_uint32 (\<lambda>file_version_ue4.
         bindp read_uint32 (\<lambda>file_size.
           ret [(''magic'', PStr (py_hex (uint magic))),
                (''legacy_version'', PInt (uint legacy_version)),
                (''legacy_ue3_version'', PInt (uint legacy_ue3_version)),
                (''file_version_ue4'', PInt (uint file_version_ue4)),
                (''file_size'', PInt (uint file_size))])))))"

definition read_metadata :: "(reader, pydict) pyop" where
  "read_metadata =
     bindp read_uint32 (\<lambda>flags.
     bindp read_uint32 (\<lambda>element_count.
     bindp read_uint32 (\<lambda>bulk_data_size.
       ret [(''flags'', PInt (uint flags)),
            (''element_count'', PInt (uint element_count)),
            (''bulk_data_size'', PInt (uint bulk_data_size))])))"

text \<open>
  \<open>read_name_table\<close>: a signed count, then that many strings, appended in
  order; \<open>range\<close> of a negative count is empty.  The loop is structural
  recursion on the count, so it always ends.
\<close>

fun read_names :: "nat \<Rightarrow> (reader, ustr list) pyop" where
  "read_names 0 = ret []"
| "read_names (Suc k) = bindp read_string (\<lambda>name. bindp (read_names k) (\<lambda>names. ret (name # names)))"

definition read_name_table :: "(reader, ustr list) pyop" where
  "read_name_table = bindp read_int32 (\<lambda>names_count. read_names (nat names_count))"

text \<open>What the callers run inside their \<open>with\<close> block: header, then metadata.\<close>

definition read_asset :: "(reader, pydict \<times> pydict) pyop" where
  "read_asset = bindp read_header (\<lambda>h. bindp read_metadata (\<lambda>m. ret (h, m)))"

subsection \<open>The abstract layout\<close>

record asset_header =
  legacy_version :: u32
  legacy_ue3_version :: u32
  file_version_ue4 :: u32
  file_size :: u32

record asset_metadata =
  flags :: u32
  element_count :: u32
  bulk_data_size :: u32

definition header_dict :: "asset_header \<Rightarrow> pydict" where
  "header_dict h =
     [(''magic'', PStr (py_hex (uint MAGIC))),
      (''legacy_version'', PInt (uint (legacy_version h))),
      (''legacy_ue3_version'', PInt (uint (legacy_ue3_version h))),
      (''file_version_ue4'', PInt (uint (file_version_ue4 h))),
      (''file_size'', PInt (uint (file_size h)))]"

definition metadata_dict :: "asset_metadata \<Rightarrow> pydict" where
  "metadata_dict m =
     [(''flags'', PInt (uint (flags m))),
      (''element_count'', PInt (uint (element_count m))),
      (''bulk_data_size'', PInt (uint (bulk_data_size m)))]"

definition header_at :: "byte list \<Rightarrow> nat \<Rightarrow> asset_header" where
  "header_at d p =
     \<lparr>legacy_version = u32_at d (p + 4), legacy_ue3_version = u32_at d (p + 8),
      file_version_ue4 = u32_at d (p + 12), file_size = u32_at d (p + 16)\<rparr>"

definition metadata_at :: "byte list \<Rightarrow> nat \<Rightarrow> asset_metadata" where
  "metadata_at d p =
     \<lparr>flags = u32_at d p, element_count = u32_at d (p + 4), bulk_data_size = u32_at d (p + 8)\<rparr>"

text \<open>The pure parser: 32 bytes, the first four the magic in little-endian order.\<close>

definition parse_asset :: "byte list \<Rightarrow> (asset_header \<times> asset_metadata) option" where
  "parse_asset d =
     (if 32 \<le> length d \<and> u32_at d 0 = MAGIC then Some (header_at d 0, metadata_at d 20) else None)"

definition asset_bytes :: "asset_header \<Rightarrow> asset_metadata \<Rightarrow> byte list" where
  "asset_bytes h m =
     concat (map (\<lambda>w. le_bytes 4 (unat w))
       [MAGIC, legacy_version h, legacy_ue3_version h, file_version_ue4 h, file_size h,
        flags m, element_count m, bulk_data_size m])"

text \<open>
  The contract of a header-then-metadata read on a fresh reader: the two dicts
  of the parse, or the exception the first failing read raises: a bad magic
  when there are four bytes to check, a short buffer otherwise.
\<close>

definition asset_error :: "byte list \<Rightarrow> exc" where
  "asset_error d =
     (if 4 \<le> length d \<and> u32_at d 0 \<noteq> MAGIC then ValueError ''Not a valid .uasset file''
      else StructError ''unpack requires a buffer of 4 bytes'')"

definition decode_asset :: "byte list \<Rightarrow> exc + pydict \<times> pydict" where
  "decode_asset d =
     (case parse_asset d of
        Some (h, m) \<Rightarrow> Inr (header_dict h, metadata_dict m)
      | None \<Rightarrow> Inl (asset_error d))"

text \<open>Where the cursor stands after the two calls: past the 32 bytes, past a
  rejected magic, or at the end of a truncated file.\<close>

definition asset_consumed :: "byte list \<Rightarrow> nat" where
  "asset_consumed d =
     (if parse_asset d \<noteq> None then 32
      else if 4 \<le> length d \<and> u32_at d 0 \<noteq> MAGIC then 4
      else length d)"

text \<open>
  The name table as a writer lays it down: an int32 count, then each name as
  an int32 byte length and its UTF-8 bytes.
\<close>

definition utf8_field :: "ustr \<Rightarrow> byte list" where
  "utf8_field cs = le_bytes 4 (length (concat (map utf8_encode cs))) @ concat (map utf8_encode cs)"

definition name_table_bytes :: "ustr list \<Rightarrow> byte list" where
  "name_table_bytes names = le_bytes 4 (length names) @ concat (map utf8_field names)"

definition name_ok :: "ustr \<Rightarrow> bool" where
  "name_ok cs \<longleftrightarrow> (\<forall>c \<in> set cs. utf8_scalar c) \<and> length (concat (map utf8_encode cs)) < 2 ^ 31"

text \<open>A value as \<open>read_uint32\<close> leaves it in a dict: a Python int in \<open>[0, 2^32)\<close>.\<close>

definition is_u32_int :: "pyval \<Rightarrow> bool" where
  "is_u32_int v = (case v of PInt i \<Rightarrow> 0 \<le> i \<and> i < 2 ^ 32 | _ \<Rightarrow> False)"

subsection \<open>Behaviour of the methods\<close>

lemma read_header_ok:
  assumes "p + 20 \<le> length d" and "u32_at d p = MAGIC"
  shows "read_header (reader_at x d p) = (Inr (header_dict (header_at d p)), reader_at x d (p + 20))"
  using assms by (simp add: read_header_def bindp_def read_uint32_full header_dict_def header_at_def ret_def add.commute)

lemma read_metadata_ok:
  assumes "p + 12 \<le> length d"
  shows "read_metadata (reader_at x d p) = (Inr (metadata_dict (metadata_at d p)), reader_at x d (p + 12))"
  using assms by (simp add: read_metadata_def bindp_def read_uint32_full metadata_dict_def metadata_at_def ret_def add.commute)

lemma read_header_bad_magic:
  assumes "p + 4 \<le> length d" and "u32_at d p \<noteq> MAGIC"
  shows "read_header (reader_at x d p) = (Inl (ValueError ''Not a valid .uasset file''), reader_at x d (p + 4))"
  using assms by (simp add: read_header_def bindp_def read_uint32_full py_raise_def)

lemma read_header_short:
  assumes "p + 4 \<le> length d" and "length d < p + 20" and "u32_at d p = MAGIC"
  shows "read_header (reader_at x d p) = (Inl (StructError ''unpack requires a buffer of 4 bytes''), reader_at x d (length d))"
  using assms by (auto simp: read_header_def bindp_def read_uint32_reader_at py_raise_def max_def)

lemma read_metadata_short:
  assumes "p \<le> length d" and "length d < p + 12"
  shows "read_metadata (reader_at x d p) = (Inl (StructError ''unpack requires a buffer of 4 bytes''), reader_at x d (length d))"
  using assms by (auto simp: read_metadata_def bindp_def read_uint32_reader_at max_def)

lemma read_asset_reader_at:
  "read_asset (reader_at x d 0) = (decode_asset d, reader_at x d (asset_consumed d))"
proof (cases "4 \<le> length d \<and> u32_at d 0 \<noteq> MAGIC")
  case True
  then show ?thesis
    using read_header_bad_magic [of 0 d x]
    by (simp add: read_asset_def bindp_def decode_asset_def parse_asset_def asset_error_def
        asset_consumed_def)
next
  case False
  consider (short) "length d < 4" | (hshort) "4 \<le> length d" "length d < 20" "u32_at d 0 = MAGIC"
    | (mshort) "20 \<le> length d" "length d < 32" "u32_at d 0 = MAGIC"
    | (ok) "32 \<le> length d" "u32_at d 0 = MAGIC"
    using False by linarith
  then show ?thesis
  proof cases
    case short
    then show ?thesis
      by (simp add: read_asset_def read_header_def bindp_def read_uint32_reader_at decode_asset_def
          parse_asset_def asset_error_def asset_consumed_def max_def)
  next
    case hshort
    then have "read_header (reader_at x d 0) =
        (Inl (StructError ''unpack requires a buffer of 4 bytes''), reader_at x d (length d))"
      by (intro read_header_short) simp_all
    with hshort show ?thesis
      by (simp add: read_asset_def bindp_def decode_asset_def parse_asset_def asset_error_def
          asset_consumed_def)
  next
    case mshort
    then have "read_metadata (reader_at x d 20) =
        (Inl (StructError ''unpack requires a buffer of 4 bytes''), reader_at x d (length d))"
      by (intro read_metadata_short) simp_all
    moreover have "read_header (reader_at x d 0) = (Inr (header_dict (header_at d 0)), reader_at x d 20)"
      using mshort by (simp add: read_header_ok)
    ultimately show ?thesis
      using mshort by (simp add: read_asset_def bindp_def decode_asset_def parse_asset_def
          asset_error_def asset_consumed_def)
  next
    case ok
    then show ?thesis
      by (simp add: read_asset_def bindp_def read_header_ok read_metadata_ok decode_asset_def
          parse_asset_def ret_def asset_consumed_def)
  qed
qed

lemma read_asset_decode: "fst (read_asset (reader_at x d 0)) = decode_asset d"
  by (simp add: read_asset_reader_at)

subsection \<open>The cursor invariant\<close>

lemma preserves_read_header_of:
  "(\<And>n. preserves P (read_bytes n)) \<Longrightarrow> preserves P read_header"
  unfolding read_header_def
  by (intro preserves_bindp preserves_if preserves_ret preserves_raise preserves_reads_of)

lemma preserves_read_metadata_of:
  "(\<And>n. preserves P (read_bytes n)) \<Longrightarrow> preserves P read_metadata"
  unfolding read_metadata_def by (intro preserves_bindp preserves_ret preserves_reads_of)

lemma preserves_read_names_of:
  "(\<And>n. preserves P (read_bytes n)) \<Longrightarrow> preserves P (read_names k)"
  by (induction k) (auto intro!: preserves_bindp preserves_read_string_enc_of)

lemma preserves_read_name_table_of:
  "(\<And>n. preserves P (read_bytes n)) \<Longrightarrow> preserves P read_name_table"
  unfolding read_name_table_def by (intro preserves_bindp preserves_reads_of preserves_read_names_of)

lemmas preserves_read_header [intro] = preserves_read_header_of [OF preserves_read_bytes]
lemmas preserves_read_metadata [intro] = preserves_read_metadata_of [OF preserves_read_bytes]
lemmas preserves_read_names [intro] = preserves_read_names_of [OF preserves_read_bytes]
lemmas preserves_read_name_table [intro] = preserves_read_name_table_of [OF preserves_read_bytes]

subsection \<open>The name table\<close>

lemma read_names_fields:
  assumes "\<forall>n \<in> set names. name_ok n"
  shows "read_names (length names) (reader_at x (pre @ concat (map utf8_field names) @ rest) (length pre)) =
           (Inr (map rstrip_nul names),
            reader_at x (pre @ concat (map utf8_field names) @ rest) (length pre + length (concat (map utf8_field names))))"
  using assms
proof (induction names arbitrary: pre)
  case Nil
  then show ?case by (simp add: ret_def)
next
  case (Cons n names)
  let ?d = "pre @ concat (map utf8_field (n # names)) @ rest"
  have d: "?d = pre @ le_bytes 4 (length (concat (map utf8_encode n))) @ concat (map utf8_encode n) @
                (concat (map utf8_field names) @ rest)"
    by (simp add: utf8_field_def)
  have s: "read_string (reader_at x ?d (length pre)) =
             (Inr (rstrip_nul n), reader_at x ?d (length (pre @ utf8_field n)))"
    using read_string_utf8_at [OF _ refl _ d] Cons.prems by (simp add: name_ok_def utf8_field_def add.assoc)
  have "?d = (pre @ utf8_field n) @ concat (map utf8_field names) @ rest" by simp
  then have r: "read_names (length names) (reader_at x ?d (length (pre @ utf8_field n))) =
      (Inr (map rstrip_nul names), reader_at x ?d (length (pre @ utf8_field n) + length (concat (map utf8_field names))))"
    using Cons.IH [of "pre @ utf8_field n"] Cons.prems by simp
  show ?case using s r by (simp add: bindp_def ret_def add.assoc)
qed

text \<open>
  C12 (roundtrip).  \<open>read_name_table\<close> on a table written as a count and
  that many UTF-8 string fields returns the names (less trailing NULs) in
  order and stops right after the table.
\<close>

theorem read_name_table_roundtrip:
  assumes "\<forall>n \<in> set names. name_ok n" and "length names < 2 ^ 31"
  shows "read_name_table (reader_at x (name_table_bytes names @ rest) 0) =
           (Inr (map rstrip_nul names), reader_at x (name_table_bytes names @ rest) (length (name_table_bytes names)))"
proof -
  let ?d = "name_table_bytes names @ rest"
  have d: "?d = [] @ le_bytes 4 (length names) @ concat (map utf8_field names) @ rest"
    by (simp add: name_table_bytes_def)
  have c: "read_int32 (reader_at x ?d 0) = (Inr (int (length names)), reader_at x ?d 4)"
    using read_int32_full [of 0 ?d x] i32_at_prefix_pos [OF assms(2), of "[]"] d by (simp add: i32_at_def)
  have "?d = le_bytes 4 (length names) @ concat (map utf8_field names) @ rest" by (simp add: name_table_bytes_def)
  then have r: "read_names (length names) (reader_at x ?d 4) =
      (Inr (map rstrip_nul names), reader_at x ?d (4 + length (concat (map utf8_field names))))"
    using read_names_fields [OF assms(1), of x "le_bytes 4 (length names)" rest] by simp
  show ?thesis using c r by (simp add: read_name_table_def bindp_def name_table_bytes_def)
qed

text \<open>
  C13 (functional).  A count that is zero or negative gives an empty table:
  \<open>range\<close> of it is empty, so only the four bytes of the count are consumed.
\<close>

theorem read_name_table_nonpositive:
  assumes "p + 4 \<le> length d" and "i32_at d p \<le> 0"
  shows "read_name_table (reader_at x d p) = (Inr [], reader_at x d (p + 4))"
  using assms by (simp add: read_name_table_def bindp_def read_int32_full ret_def)

text \<open>A one-name table holding "hi", and a table with count \<open>-1\<close>.\<close>

theorem read_name_table_roundtrip_witness:
  "read_name_table (reader_at ''n'' (name_table_bytes [[104, 105]] @ []) 0) =
     (Inr [[104, 105]], reader_at ''n'' (name_table_bytes [[104, 105]] @ []) 10)"
  using read_name_table_roundtrip [of "[[104, 105]]" "''n''" "[]"]
  by (simp add: name_ok_def utf8_scalar_def utf8_encode_def name_table_bytes_def utf8_field_def rstrip_nul_def)

theorem read_name_table_nonpositive_witness:
  "read_name_table (reader_at ''n'' [0xFF, 0xFF, 0xFF, 0xFF] 0) = (Inr [], reader_at ''n'' [0xFF, 0xFF, 0xFF, 0xFF] 4)"
  using read_name_table_nonpositive [of 0 "[0xFF, 0xFF, 0xFF, 0xFF]" "''n''"]
  by (simp add: i32_at_def u32_at_def)

subsection \<open>The layout round trip\<close>

lemma u32_at_shift: "length c = 4 \<Longrightarrow> 4 \<le> p \<Longrightarrow> u32_at (c @ rest) p = u32_at rest (p - 4)"
  by (simp add: u32_at_def)

lemma length_asset_bytes [simp]: "length (asset_bytes h m) = 32"
  by (simp add: asset_bytes_def)

lemma parse_asset_bytes: "parse_asset (asset_bytes h m @ rest) = Some (h, m)"
  by (simp add: parse_asset_def asset_bytes_def header_at_def metadata_at_def u32_at_le_bytes u32_at_shift)

text \<open>The little-endian bytes of the magic: the order a valid file starts with.\<close>

lemma MAGIC_bytes: "le_bytes 4 (unat MAGIC) = [0x9E, 0x2A, 0x83, 0xC1]"
  by (simp add: MAGIC_def le_bytes_numeral le_bytes_one)

text \<open>
  C2 (roundtrip).  A file that starts with the encoding of a header and a
  metadata block, whatever follows, reads back as exactly those seven fields,
  and the cursor ends on byte 32, right after them.
\<close>

theorem read_asset_roundtrip:
  "read_asset (reader_at x (asset_bytes h m @ rest) 0) =
     (Inr (header_dict h, metadata_dict m), reader_at x (asset_bytes h m @ rest) 32)"
proof -
  let ?d = "asset_bytes h m @ rest"
  have p: "parse_asset ?d = Some (h, m)" by (rule parse_asset_bytes)
  then have hm: "header_at ?d 0 = h" "metadata_at ?d 20 = m" and magic: "u32_at ?d 0 = MAGIC"
    by (simp_all add: parse_asset_def split: if_splits)
  have len: "32 \<le> length ?d" by simp
  have "read_header (reader_at x ?d 0) = (Inr (header_dict h), reader_at x ?d 20)"
    using read_header_ok [of 0 ?d x] len magic hm by simp
  moreover have "read_metadata (reader_at x ?d 20) = (Inr (metadata_dict m), reader_at x ?d 32)"
    using read_metadata_ok [of 20 ?d x] len hm by simp
  ultimately show ?thesis by (simp add: read_asset_def bindp_def ret_def)
qed

text \<open>
  C1 (refinement).  The session both front-ends run, \<open>with
  UnrealAssetReader(path) as reader\<close> around \<open>read_header()\<close> and then
  \<open>read_metadata()\<close>, computes the pure layout decoder on the file's bytes: the
  two dicts of the parsed records, or the exception of the first failing read
  (a \<open>ValueError\<close> for a wrong magic, a \<open>struct.error\<close> for a truncated
  file); the file is closed afterwards with the cursor where the reads left it.
  A missing path raises \<open>FileNotFoundError\<close> before any read.
\<close>

theorem read_asset_refines:
  "with_reader fs UnrealAssetReaderCls p read_asset =
     (case fs p of
        None \<Rightarrow> (Inl (FileNotFoundError p), Some (reader_init p))
      | Some d \<Rightarrow>
          (decode_asset d,
           Some \<lparr>file_path = p, rfile = Some \<lparr>fdata = d, fpos = asset_consumed d, fclosed = True\<rparr>,
                 position = int (asset_consumed d)\<rparr>))"
  by (cases "fs p")
     (simp_all add: with_reader_missing with_reader_open read_asset_reader_at reader_exit_reader_at)

subsection \<open>The shape of the returned dicts\<close>

lemma py_hex_MAGIC: "py_hex (uint MAGIC) = ''0xc1832a9e''"
  by (simp add: MAGIC_def py_hex_def hex_nat.simps digit_char_def)

lemma is_u32_int_uint [simp]: "is_u32_int (PInt (uint (w :: u32)))"
  using uint_lt2p [of w] by (simp add: is_u32_int_def)

text \<open>
  C25 (type).  A dict \<open>read_header\<close> returns has the keys \<open>magic\<close>,
  \<open>legacy_version\<close>, \<open>legacy_ue3_version\<close>, \<open>file_version_ue4\<close>,
  \<open>file_size\<close> in that order, the string \<open>'0xc1832a9e'\<close> under \<open>magic\<close>
  and an int in \<open>[0, 2^32)\<close> under every other key; one \<open>read_metadata\<close>
  returns has the keys \<open>flags\<close>, \<open>element_count\<close>, \<open>bulk_data_size\<close>, each
  with such an int.  This holds from any reader state.
\<close>

theorem read_dicts_shape:
  "(read_header r = (Inr h, r') \<longrightarrow>
      map fst h = [''magic'', ''legacy_version'', ''legacy_ue3_version'', ''file_version_ue4'', ''file_size''] \<and>
      snd (hd h) = PStr ''0xc1832a9e'' \<and> list_all is_u32_int (map snd (tl h))) \<and>
   (read_metadata r = (Inr m, r'') \<longrightarrow>
      map fst m = [''flags'', ''element_count'', ''bulk_data_size''] \<and> list_all is_u32_int (map snd m))"
proof (intro conjI impI)
  assume "read_header r = (Inr h, r')"
  then have "\<exists>(a :: u32) (b :: u32) (c :: u32) (d :: u32). h = [(''magic'', PStr (py_hex (uint MAGIC))), (''legacy_version'', PInt (uint a)),
                  (''legacy_ue3_version'', PInt (uint b)), (''file_version_ue4'', PInt (uint c)),
                  (''file_size'', PInt (uint d))]"
    by (auto simp: read_header_def bindp_eq_Inr ret_def py_raise_def split: if_splits)
  then show "map fst h = [''magic'', ''legacy_version'', ''legacy_ue3_version'', ''file_version_ue4'', ''file_size'']"
    and "snd (hd h) = PStr ''0xc1832a9e''" and "list_all is_u32_int (map snd (tl h))"
    by (auto simp: py_hex_MAGIC)
next
  assume "read_metadata r = (Inr m, r'')"
  then have "\<exists>(a :: u32) (b :: u32) (c :: u32). m = [(''flags'', PInt (uint a)), (''element_count'', PInt (uint b)),
                          (''bulk_data_size'', PInt (uint c))]"
    by (auto simp: read_metadata_def bindp_eq_Inr ret_def)
  then show "map fst m = [''flags'', ''element_count'', ''bulk_data_size'']"
    and "list_all is_u32_int (map snd m)" by auto
qed

end
