(* ===== verification/Server.thy ===== *)
theory Server
  imports UnrealReader "HOL-Library.Sublist"
begin

text \<open>
  The tool server of \<open>src/main.py\<close>: the two tools it lists, the text
  rendering of an asset (\<open>format_unreal_asset_data\<close>), and the dispatcher
  \<open>handle_call_tool\<close>, which runs the decoder inside a \<open>with\<close> block and
  turns every outcome into one line of text.  The tool arguments are the JSON
  object of the call with string values (the input schemas declare only
  strings); the reply, a one-element list of \<open>TextContent\<close>, is its text.
  The server object that \<open>main()\<close> runs is in \<open>Session\<close>.
\<close>

definition nl :: string where
  "nl = [CHR 0x0A]"

text \<open>
  A \<open>types.Tool\<close> as the dispatcher sees it: its name and the input
  schema's properties (all of type string), the required ones, the values an
  \<open>enum\<close> allows and the declared defaults.  Descriptions are not modelled.
\<close>

record tool =
  tool_name :: string
  tool_properties :: "string list"
  tool_required :: "string list"
  tool_enums :: "(string \<times> string list) list"
  tool_defaults :: "(string \<times> string) list"

definition handle_list_tools :: "tool list" where
  "handle_list_tools =
     [\<lparr>tool_name = ''read-unreal-asset'', tool_properties = [''file_path''], tool_required = [''file_path''],
       tool_enums = [], tool_defaults = []\<rparr>,
      \<lparr>tool_name = ''read-binary-metadata'', tool_properties = [''file_path'', ''format''],
       tool_required = [''file_path''], tool_enums = [(''format'', [''auto'', ''unreal'', ''custom''])],
       tool_defaults = [(''format'', ''auto'')]\<rparr>]"

subsection \<open>Rendering an asset\<close>

text \<open>\<open>data.get(sect, {}).get(key, 'N/A')\<close> rendered by an f-string.\<close>

definition data_field :: "pyval \<Rightarrow> string \<Rightarrow> string \<Rightarrow> exc + string" where
  "data_field data sect key =
     sbind (py_get data sect (PDict [])) (\<lambda>d. sbind (py_get d key (PStr ''N/A'')) (\<lambda>v. Inr (py_str v)))"

text \<open>An f-string evaluates its parts left to right; the first that raises wins.\<close>

fun concat_parts :: "(exc + string) list \<Rightarrow> exc + string" where
  "concat_parts [] = Inr []"
| "concat_parts (p # ps) = sbind p (\<lambda>s. sbind (concat_parts ps) (\<lambda>t. Inr (s @ t)))"

definition format_unreal_asset_data :: "pyval \<Rightarrow> string" where
  "format_unreal_asset_data data =
     (case concat_parts
        [Inr (''Unreal Asset Analysis:'' @ nl @ nl @ ''Header Information:'' @ nl @ ''Magic: ''),
         data_field data ''header'' ''magic'',
         Inr (nl @ ''Legacy Version: ''), data_field data ''header'' ''legacy_version'',
         Inr (nl @ ''UE4 Version: ''), data_field data ''header'' ''file_version_ue4'',
         Inr (nl @ ''File Size: ''), data_field data ''header'' ''file_size'',
         Inr ('' bytes'' @ nl @ nl @ ''Metadata:'' @ nl @ ''Flags: ''), data_field data ''metadata'' ''flags'',
         Inr (nl @ ''Element Count: ''), data_field data ''metadata'' ''element_count'',
         Inr (nl @ ''Bulk Data Size: ''), data_field data ''metadata'' ''bulk_data_size'',
         Inr ('' bytes'' @ nl @ ''---'')] of
        Inr s \<Rightarrow> s
      | Inl e \<Rightarrow> ''Error formatting asset data: '' @ exc_str e)"

subsection \<open>The bodies of the two with blocks\<close>

definition unreal_body :: "(reader, string) pyop" where
  "unreal_body =
     bindp read_header (\<lambda>h. bindp read_metadata (\<lambda>m.
       ret (format_unreal_asset_data (PDict [(''header'', PDict h), (''metadata'', PDict m)]))))"

text \<open>
  The generic tool: the size from \<open>os.path.getsize\<close>, then the header and the
  metadata (\<open>hasattr\<close> holds for every class that can be instantiated), and
  the text with the dicts printed by \<open>str\<close>.
\<close>

definition binary_metadata_body :: "filesystem \<Rightarrow> string \<Rightarrow> string \<Rightarrow> (reader, string) pyop" where
  "binary_metadata_body fs fpath format_type =
     bindp (liftp (getsize fs fpath)) (\<lambda>sz.
     bindp read_header (\<lambda>h.
     bindp read_metadata (\<lambda>m.
       ret (''Binary File Analysis:'' @ nl @ nl @ ''File Path: '' @ fpath @ nl @
            ''File Size: '' @ dec_nat sz @ '' bytes'' @ nl @ ''Format: '' @ format_type @ nl @ nl @
            (if py_truthy (PDict h) then ''Header Information:'' @ nl @ py_str (PDict h) @ nl @ nl else []) @
            (if py_truthy (PDict m) then ''Metadata Information:'' @ nl @ py_str (PDict m) else [])))))"

text \<open>\<open>reader_class\<close> of the generic tool.\<close>

definition select_reader_class :: "string \<Rightarrow> string \<Rightarrow> reader_class" where
  "select_reader_class format_type fpath =
     (if format_type = ''unreal'' \<or> (format_type = ''auto'' \<and> suffix ''.uasset'' fpath)
      then UnrealAssetReaderCls else BinaryReaderCls)"

subsection \<open>The dispatcher\<close>

definition handle_call_tool :: "filesystem \<Rightarrow> string \<Rightarrow> (string \<times> string) list option \<Rightarrow> string" where
  "handle_call_tool fs name arguments =
     (case arguments of
        None \<Rightarrow> ''Missing arguments for the request''
      | Some args \<Rightarrow>
          if args = [] then ''Missing arguments for the request''
          else if name = ''read-unreal-asset'' then
            (case map_of args ''file_path'' of
               None \<Rightarrow> ''Missing file_path parameter''
             | Some fpath \<Rightarrow>
                 if fpath = [] then ''Missing file_path parameter''
                 else
                   (case fst (with_reader fs UnrealAssetReaderCls fpath unreal_body) of
                      Inr text \<Rightarrow> text
                    | Inl (FileNotFoundError _) \<Rightarrow> ''Error: File not found - '' @ fpath
                    | Inl e \<Rightarrow>
                        if is_value_error e then ''Error: '' @ exc_str e
                        else ''Unexpected error: '' @ exc_str e))
          else if name = ''read-binary-metadata'' then
            (case map_of args ''file_path'' of
               None \<Rightarrow> ''Missing file_path parameter''
             | Some fpath \<Rightarrow>
                 if fpath = [] then ''Missing file_path parameter''
                 else
                   (let format_type = (case map_of args ''format'' of None \<Rightarrow> ''auto'' | Some f \<Rightarrow> f)
                    in case fst (with_reader fs (select_reader_class format_type fpath) fpath
                                   (binary_metadata_body fs fpath format_type)) of
                         Inr text \<Rightarrow> text
                       | Inl (FileNotFoundError _) \<Rightarrow> ''Error: File not found - '' @ fpath
                       | Inl e \<Rightarrow> ''Error analyzing file: '' @ exc_str e))
          else ''Unknown tool: '' @ name)"

subsection \<open>Behaviour of the dispatcher\<close>

text \<open>The text the first tool prints for a decoded header and metadata.\<close>

definition asset_text :: "pydict \<Rightarrow> pydict \<Rightarrow> string" where
  "asset_text h m = format_unreal_asset_data (PDict [(''header'', PDict h), (''metadata'', PDict m)])"

text \<open>The text the generic tool prints for a file of a given size.\<close>

definition binary_text :: "string \<Rightarrow> nat \<Rightarrow> string \<Rightarrow> pydict \<Rightarrow> pydict \<Rightarrow> string" where
  "binary_text fpath sz format_type h m =
     ''Binary File Analysis:'' @ nl @ nl @ ''File Path: '' @ fpath @ nl @
     ''File Size: '' @ dec_nat sz @ '' bytes'' @ nl @ ''Format: '' @ format_type @ nl @ nl @
     (if py_truthy (PDict h) then ''Header Information:'' @ nl @ py_str (PDict h) @ nl @ nl else []) @
     (if py_truthy (PDict m) then ''Metadata Information:'' @ nl @ py_str (PDict m) else [])"

lemma unreal_body_read_asset: "unreal_body = bindp read_asset (\<lambda>hm. ret (asset_text (fst hm) (snd hm)))"
  by (simp add: unreal_body_def read_asset_def bindp_assoc asset_text_def)

lemma fst_unreal_body:
  "fst (unreal_body (reader_at p d 0)) = map_sum id (\<lambda>hm. asset_text (fst hm) (snd hm)) (decode_asset d)"
  by (simp add: unreal_body_read_asset fst_bindp_ret read_asset_decode)

lemma decode_asset_not_found: "decode_asset d \<noteq> Inl (FileNotFoundError q)"
  by (simp add: decode_asset_def asset_error_def split: option.split prod.split)

lemmas call_tool_simps = handle_call_tool_def with_reader_missing with_reader_open with_reader_abstract

subsection \<open>How the replies begin\<close>

text \<open>
  Every reply of a listed tool starts with one of a few fixed words; three
  characters tell them apart from \<open>Unknown tool\<close>.
\<close>

lemma concat_parts_Cons_Inr: "concat_parts (Inr a # ps) = map_sum id (\<lambda>t. a @ t) (concat_parts ps)"
  by (cases "concat_parts ps") (simp_all add: sbind_def)

lemma case_map_sum_append:
  "(case map_sum id ((@) a) x of Inl e \<Rightarrow> f e | Inr s \<Rightarrow> s) = (case x of Inl e \<Rightarrow> f e | Inr s \<Rightarrow> a @ s)"
  by (cases x) simp_all

lemma format_unreal_asset_data_take3:
  "take 3 (format_unreal_asset_data v) \<in> {''Unr'', ''Err''}"
  unfolding format_unreal_asset_data_def concat_parts_Cons_Inr case_map_sum_append
  by (simp split: sum.split)

lemma unreal_body_Inr: "fst (unreal_body r) = Inr t \<Longrightarrow> take 3 t = ''Unr'' \<or> take 3 t = ''Err''"
  using format_unreal_asset_data_take3
  by (auto simp: unreal_body_def bindp_def ret_def split: prod.splits sum.splits)

lemma binary_metadata_body_Inr: "fst (binary_metadata_body fs p fmt r) = Inr t \<Longrightarrow> take 3 t = ''Bin''"
  by (auto simp: binary_metadata_body_def bindp_def ret_def liftp_def split: prod.splits sum.splits)

lemma unreal_tool_reply:
  "take 3 (case fst (with_reader fs UnrealAssetReaderCls q unreal_body) of
      Inr text \<Rightarrow> text
    | Inl (FileNotFoundError _) \<Rightarrow> ''Error: File not found - '' @ q
    | Inl e \<Rightarrow> if is_value_error e then ''Error: '' @ exc_str e else ''Unexpected error: '' @ exc_str e) \<noteq> ''Unk''"
proof (cases "fst (with_reader fs UnrealAssetReaderCls q unreal_body)")
  case (Inl e)
  then show ?thesis by (cases e) simp_all
next
  case (Inr t)
  then obtain r where "fst (unreal_body r) = Inr t" by (auto dest: with_reader_Inr)
  then have "take 3 t = ''Unr'' \<or> take 3 t = ''Err''" by (rule unreal_body_Inr)
  with Inr show ?thesis by auto
qed

lemma binary_tool_reply:
  "take 3 (case fst (with_reader fs cls q (binary_metadata_body fs q fmt)) of
      Inr text \<Rightarrow> text
    | Inl (FileNotFoundError _) \<Rightarrow> ''Error: File not found - '' @ q
    | Inl e \<Rightarrow> ''Error analyzing file: '' @ exc_str e) \<noteq> ''Unk''"
proof (cases "fst (with_reader fs cls q (binary_metadata_body fs q fmt))")
  case (Inl e)
  then show ?thesis by (cases e) simp_all
next
  case (Inr t)
  then obtain r where "fst (binary_metadata_body fs q fmt r) = Inr t" by (auto dest: with_reader_Inr)
  then have "take 3 t = ''Bin''" by (rule binary_metadata_body_Inr)
  with Inr show ?thesis by simp
qed

lemma listed_tool_reply:
  assumes "name \<in> tool_name ` set handle_list_tools" and "args \<noteq> []"
  shows "take 3 (handle_call_tool fs name (Some args)) \<noteq> ''Unk''"
  using assms unreal_tool_reply binary_tool_reply
  by (auto simp: handle_call_tool_def handle_list_tools_def Let_def split: option.split)

subsection \<open>Replies of the dispatcher\<close>

lemma call_tool_unreal:
  assumes "args \<noteq> []" and "map_of args ''file_path'' = Some p" and "p \<noteq> []"
  shows "handle_call_tool fs ''read-unreal-asset'' (Some args) =
    (case fs p of
       None \<Rightarrow> ''Error: File not found - '' @ p
     | Some d \<Rightarrow>
         (case decode_asset d of
            Inr (h, m) \<Rightarrow> asset_text h m
          | Inl e \<Rightarrow> (if is_value_error e then ''Error: '' else ''Unexpected error: '') @ exc_str e))"
proof (cases "fs p")
  case None
  with assms show ?thesis by (simp add: call_tool_simps)
next
  case (Some d)
  show ?thesis
  proof (cases "decode_asset d")
    case (Inl e)
    then have "\<And>q. e \<noteq> FileNotFoundError q" using decode_asset_not_found by metis
    with Inl Some assms show ?thesis
      by (cases e) (fastforce simp: call_tool_simps fst_unreal_body)+
  next
    case (Inr hm)
    with Some assms show ?thesis
      by (cases hm) (simp add: call_tool_simps fst_unreal_body)
  qed
qed

text \<open>
  C3 (functional).  The reply of \<open>read-unreal-asset\<close> to a call with a
  non-empty path: "File not found" for a missing file; otherwise the rendering
  of the decoded header and metadata, or the decoder's exception, prefixed
  \<open>Error:\<close> when it is a \<open>ValueError\<close> and \<open>Unexpected error:\<close> otherwise.
\<close>

theorem read_unreal_asset_reply:
  assumes "args \<noteq> []" and "map_of args ''file_path'' = Some p" and "p \<noteq> []"
  shows "handle_call_tool fs ''read-unreal-asset'' (Some args) =
    (case fs p of
       None \<Rightarrow> ''Error: File not found - '' @ p
     | Some d \<Rightarrow>
         (case decode_asset d of
            Inr (h, m) \<Rightarrow> asset_text h m
          | Inl e \<Rightarrow> (if is_value_error e then ''Error: '' else ''Unexpected error: '') @ exc_str e))"
  by (rule call_tool_unreal [OF assms])

text \<open>
  C5 (error).  Whenever the generic tool does not pick the Unreal reader (a
  format other than \<open>unreal\<close>, or \<open>auto\<close> on a path without the
  \<open>.uasset\<close> suffix), it instantiates the abstract \<open>BinaryReader\<close> and
  replies with Python's \<open>TypeError\<close>, whatever the file system holds, even
  when the file does not exist.
\<close>

theorem read_binary_metadata_abstract:
  assumes "args \<noteq> []" and "map_of args ''file_path'' = Some p" and "p \<noteq> []"
    and "select_reader_class (case map_of args ''format'' of None \<Rightarrow> ''auto'' | Some f \<Rightarrow> f) p = BinaryReaderCls"
  shows "handle_call_tool fs ''read-binary-metadata'' (Some args) = ''Error analyzing file: '' @ exc_str abstract_class_error"
  using assms by (simp add: call_tool_simps Let_def abstract_class_error_def)
text \<open>The generic tool asked for a \<open>custom\<close> file that does not even exist.\<close>

theorem read_binary_metadata_abstract_witness:
  "handle_call_tool Map.empty ''read-binary-metadata'' (Some [(''file_path'', ''x.bin''), (''format'', ''custom'')]) =
     ''Error analyzing file: '' @ exc_str abstract_class_error"
  using read_binary_metadata_abstract [of "[(''file_path'', ''x.bin''), (''format'', ''custom'')]" "''x.bin''" Map.empty]
  by (simp add: select_reader_class_def)

text \<open>
  C17 (functional).  The text \<open>read-unreal-asset\<close> prints for a decoded
  asset: the magic as \<open>0xc1832a9e\<close>, then the legacy version, the UE4
  version and the size of the header, then the three metadata fields, each
  a decimal integer; the \<open>legacy_ue3_version\<close> field is read but never
  printed.  Rendering a decoded asset cannot fail.
\<close>

theorem asset_text_render:
  "asset_text (header_dict h) (metadata_dict m) =
     ''Unreal Asset Analysis:'' @ nl @ nl @ ''Header Information:'' @ nl @
     ''Magic: 0xc1832a9e'' @ nl @
     ''Legacy Version: '' @ py_int_str (uint (legacy_version h)) @ nl @
     ''UE4 Version: '' @ py_int_str (uint (file_version_ue4 h)) @ nl @
     ''File Size: '' @ py_int_str (uint (file_size h)) @ '' bytes'' @ nl @ nl @
     ''Metadata:'' @ nl @ ''Flags: '' @ py_int_str (uint (flags m)) @ nl @
     ''Element Count: '' @ py_int_str (uint (element_count m)) @ nl @
     ''Bulk Data Size: '' @ py_int_str (uint (bulk_data_size m)) @ '' bytes'' @ nl @ ''---''"
  by (simp add: asset_text_def format_unreal_asset_data_def data_field_def py_get_def
      header_dict_def metadata_dict_def py_hex_MAGIC)

lemma binary_metadata_body_read_asset:
  "binary_metadata_body fs p fmt =
     bindp (liftp (getsize fs p)) (\<lambda>sz. bindp read_asset (\<lambda>hm. ret (binary_text p sz fmt (fst hm) (snd hm))))"
  unfolding binary_metadata_body_def binary_text_def [symmetric] by (simp add: read_asset_def bindp_assoc)

lemma fst_binary_metadata_body:
  "fs p = Some d \<Longrightarrow>
     fst (binary_metadata_body fs p fmt (reader_at p d 0)) =
       map_sum id (\<lambda>hm. binary_text p (length d) fmt (fst hm) (snd hm)) (decode_asset d)"
  by (simp add: binary_metadata_body_read_asset getsize_def fst_bindp_ret read_asset_decode)

text \<open>
  C18 (functional).  When the generic tool does pick the Unreal reader, it
  answers "File not found" for a missing file, the size, format and both
  dicts for a file that decodes, and "Error analyzing file:" with the
  decoder's exception otherwise (also for a \<open>ValueError\<close>, unlike the first
  tool).
\<close>

theorem read_binary_metadata_unreal:
  assumes "args \<noteq> []" and "map_of args ''file_path'' = Some p" and "p \<noteq> []"
    and "fmt = (case map_of args ''format'' of None \<Rightarrow> ''auto'' | Some f \<Rightarrow> f)"
    and "select_reader_class fmt p = UnrealAssetReaderCls"
  shows "handle_call_tool fs ''read-binary-metadata'' (Some args) =
    (case fs p of
       None \<Rightarrow> ''Error: File not found - '' @ p
     | Some d \<Rightarrow>
         (case decode_asset d of
            Inr (h, m) \<Rightarrow> binary_text p (length d) fmt h m
          | Inl e \<Rightarrow> ''Error analyzing file: '' @ exc_str e))"
proof (cases "fs p")
  case None
  with assms show ?thesis by (simp add: call_tool_simps Let_def)
next
  case (Some d)
  then have b: "fst (binary_metadata_body fs p fmt (reader_at p d 0)) =
       map_sum id (\<lambda>hm. binary_text p (length d) fmt (fst hm) (snd hm)) (decode_asset d)"
    by (rule fst_binary_metadata_body)
  show ?thesis
  proof (cases "decode_asset d")
    case (Inl e)
    with Some assms b show ?thesis
      by (cases e) (simp_all add: call_tool_simps Let_def decode_asset_not_found)
  next
    case (Inr hm)
    with Some assms b show ?thesis
      by (cases hm) (simp add: call_tool_simps Let_def)
  qed
qed

theorem read_binary_metadata_unreal_witness:
  "handle_call_tool Map.empty ''read-binary-metadata'' (Some [(''file_path'', ''a.uasset'')]) =
     ''Error: File not found - a.uasset''"
  using read_binary_metadata_unreal [of "[(''file_path'', ''a.uasset'')]" "''a.uasset''" "''auto''" Map.empty]
  by (simp add: select_reader_class_def suffix_to_prefix)

text \<open>
  C19 (error).  The dispatcher's replies to malformed calls, before any file
  is touched: no or empty arguments, a missing or empty \<open>file_path\<close> for
  either tool, and an unknown tool name.
\<close>

theorem call_tool_bad_requests:
  assumes "name \<noteq> ''read-unreal-asset''" and "name \<noteq> ''read-binary-metadata''" and "args \<noteq> []"
    and "tool \<in> {''read-unreal-asset'', ''read-binary-metadata''}" and "targs \<noteq> []"
    and "map_of targs ''file_path'' \<in> {None, Some []}"
  shows "handle_call_tool fs n None = ''Missing arguments for the request'' \<and>
         handle_call_tool fs n (Some []) = ''Missing arguments for the request'' \<and>
         handle_call_tool fs name (Some args) = ''Unknown tool: '' @ name \<and>
         handle_call_tool fs tool (Some targs) = ''Missing file_path parameter''"
  using assms by (auto simp: handle_call_tool_def)

theorem call_tool_bad_requests_witness:
  "handle_call_tool Map.empty ''x'' None = ''Missing arguments for the request'' \<and>
   handle_call_tool Map.empty ''x'' (Some []) = ''Missing arguments for the request'' \<and>
   handle_call_tool Map.empty ''list'' (Some [(''a'', ''b'')]) = ''Unknown tool: list'' \<and>
   handle_call_tool Map.empty ''read-unreal-asset'' (Some [(''file_path'', [])]) = ''Missing file_path parameter''"
  using call_tool_bad_requests [of "''list''" "[(''a'', ''b'')]" "''read-unreal-asset''" "[(''file_path'', [])]" Map.empty "''x''"]
  by simp

text \<open>
  C28 (safety).  The tool list and the dispatcher agree: a call with
  arguments is answered "Unknown tool" exactly when its name is not among
  the tools \<open>handle_list_tools\<close> advertises, whatever the file system holds.
\<close>

theorem listed_tools_dispatched:
  assumes "args \<noteq> []"
  shows "handle_call_tool fs name (Some args) = ''Unknown tool: '' @ name \<longleftrightarrow>
           name \<notin> tool_name ` set handle_list_tools"
proof
  assume "handle_call_tool fs name (Some args) = ''Unknown tool: '' @ name"
  then have "take 3 (handle_call_tool fs name (Some args)) = ''Unk''" by simp
  with listed_tool_reply [OF _ assms] show "name \<notin> tool_name ` set handle_list_tools" by blast
next
  assume "name \<notin> tool_name ` set handle_list_tools"
  with assms show "handle_call_tool fs name (Some args) = ''Unknown tool: '' @ name"
    by (simp add: handle_call_tool_def handle_list_tools_def)
qed

theorem listed_tools_dispatched_witness:
  "handle_call_tool Map.empty ''read-unreal-asset'' (Some [(''file_path'', ''a'')]) \<noteq> ''Unknown tool: read-unreal-asset'' \<and>
   handle_call_tool Map.empty ''list'' (Some [(''file_path'', ''a'')]) = ''Unknown tool: list''"
  using listed_tools_dispatched [of "[(''file_path'', ''a'')]" Map.empty "''read-unreal-asset''"]
    listed_tools_dispatched [of "[(''file_path'', ''a'')]" Map.empty "''list''"]
  by (simp add: handle_list_tools_def)

end
