(* ===== verification/Session.thy ===== *)
theory Session
  imports Server
begin

text \<open>
  The MCP server object of \<open>src/main.py\<close> and the requests it answers.
  \<open>Server("binary_reader")\<close> starts with the \<open>ping\<close> handler of the MCP
  library; the decorators \<open>@server.list_tools()\<close> and
  \<open>@server.call_tool()\<close> register the two handlers; \<open>main()\<close> runs the
  server with \<open>InitializationOptions\<close> whose capabilities come from
  \<open>server.get_capabilities\<close>, which advertises a capability exactly when its
  request handler is registered.  A request is answered by the session
  (\<open>initialize\<close>), by its registered handler, or with the JSON-RPC error
  "Method not found" (code \<open>-32601\<close>).  The handlers keep no state between
  requests, so a session is the list of its answers.  The stdio streams, the
  JSON-RPC framing and the protocol-version negotiation are not modelled.
\<close>

datatype mcp_method = MPing | MListTools | MCallTool | MListPrompts | MListResources | MSetLevel

record mcp_server =
  srv_name :: string
  srv_handlers :: "mcp_method list"

text \<open>\<open>Server(name)\<close>: only \<open>ping\<close> is handled.\<close>

definition server_new :: "string \<Rightarrow> mcp_server" where
  "server_new n = \<lparr>srv_name = n, srv_handlers = [MPing]\<rparr>"

text \<open>A handler decorator: the entry of \<open>request_handlers\<close> for its method.\<close>

definition register :: "mcp_method \<Rightarrow> mcp_server \<Rightarrow> mcp_server" where
  "register m srv =
     (if m \<in> set (srv_handlers srv) then srv else srv\<lparr>srv_handlers := srv_handlers srv @ [m]\<rparr>)"

definition binary_reader_server :: mcp_server where
  "binary_reader_server = register MCallTool (register MListTools (server_new ''binary_reader''))"

record notification_options =
  prompts_changed :: bool
  resources_changed :: bool
  tools_changed :: bool

text \<open>\<open>NotificationOptions()\<close>: no list-changed notifications.\<close>

definition default_notification_options :: notification_options where
  "default_notification_options = \<lparr>prompts_changed = False, resources_changed = False, tools_changed = False\<rparr>"

text \<open>A capability present carries its \<open>listChanged\<close> flag.\<close>

record server_capabilities =
  cap_prompts :: "bool option"
  cap_resources :: "bool option"
  cap_tools :: "bool option"
  cap_logging :: bool
  cap_experimental :: "(string \<times> pyval) list"

definition get_capabilities ::
  "mcp_server \<Rightarrow> notification_options \<Rightarrow> (string \<times> pyval) list \<Rightarrow> server_capabilities" where
  "get_capabilities srv no exp =
     \<lparr>cap_prompts = (if MListPrompts \<in> set (srv_handlers srv) then Some (prompts_changed no) else None),
      cap_resources = (if MListResources \<in> set (srv_handlers srv) then Some (resources_changed no) else None),
      cap_tools = (if MListTools \<in> set (srv_handlers srv) then Some (tools_changed no) else None),
      cap_logging = (MSetLevel \<in> set (srv_handlers srv)),
      cap_experimental = exp\<rparr>"

record init_options =
  io_server_name :: string
  io_server_version :: string
  io_capabilities :: server_capabilities

definition main_init_options :: init_options where
  "main_init_options =
     \<lparr>io_server_name = ''binary_reader'', io_server_version = ''0.1.0'',
      io_capabilities = get_capabilities binary_reader_server default_notification_options []\<rparr>"

datatype mcp_request =
    Initialize
  | Ping
  | ListTools
  | CallTool string "(string \<times> string) list option"
  | ListPrompts
  | ListResources
  | SetLevel string

fun request_method :: "mcp_request \<Rightarrow> mcp_method option" where
  "request_method Initialize = None"
| "request_method Ping = Some MPing"
| "request_method ListTools = Some MListTools"
| "request_method (CallTool _ _) = Some MCallTool"
| "request_method ListPrompts = Some MListPrompts"
| "request_method ListResources = Some MListResources"
| "request_method (SetLevel _) = Some MSetLevel"

text \<open>
  The results: \<open>InitializeResult\<close> (server info and capabilities), the empty
  result of \<open>ping\<close>, the tool list, a \<open>CallToolResult\<close> with the text of its
  single \<open>TextContent\<close> and \<open>isError\<close>, and a JSON-RPC error.
\<close>

datatype mcp_response =
    InitializeResult string string server_capabilities
  | EmptyResult
  | ListToolsResult "tool list"
  | CallToolResult string bool
  | ErrorResponse int string

definition method_not_found :: mcp_response where
  "method_not_found = ErrorResponse (-32601) ''Method not found''"

definition handle_request :: "filesystem \<Rightarrow> mcp_server \<Rightarrow> init_options \<Rightarrow> mcp_request \<Rightarrow> mcp_response" where
  "handle_request fs srv opts rq =
     (case request_method rq of
        None \<Rightarrow> InitializeResult (io_server_name opts) (io_server_version opts) (io_capabilities opts)
      | Some m \<Rightarrow>
          if m \<notin> set (srv_handlers srv) then method_not_found
          else (case rq of
                  ListTools \<Rightarrow> ListToolsResult handle_list_tools
                | CallTool name args \<Rightarrow> CallToolResult (handle_call_tool fs name args) False
                | _ \<Rightarrow> EmptyResult))"

text \<open>\<open>main()\<close>: the server run over one session's requests, in order.\<close>

definition serve :: "filesystem \<Rightarrow> mcp_request list \<Rightarrow> mcp_response list" where
  "serve fs rqs = map (handle_request fs binary_reader_server main_init_options) rqs"

subsection \<open>The server of main.py\<close>

lemma binary_reader_server_handlers: "srv_handlers binary_reader_server = [MPing, MListTools, MCallTool]"
  by (simp add: binary_reader_server_def register_def server_new_def)

lemma main_capabilities:
  "io_capabilities main_init_options =
     \<lparr>cap_prompts = None, cap_resources = None, cap_tools = Some False, cap_logging = False,
      cap_experimental = []\<rparr>"
  by (simp add: main_init_options_def get_capabilities_def binary_reader_server_handlers
      default_notification_options_def)

end
