(* ===== verification/Utils.thy ===== *)
theory Utils
  imports UnrealReader
begin

text \<open>
  The helpers of \<open>src/binary_reader/utils.py\<close> and the settings of
  \<open>src/config.py\<close>: the file size, sniffing the first bytes of an open file
  without moving it, detecting a format from its leading bytes, and the table
  of supported formats.  The lemmas relate the detector to the decoder of
  theory \<open>UnrealReader\<close>: the two disagree on the byte order of the magic.
\<close>

definition get_file_size :: "filesystem \<Rightarrow> string \<Rightarrow> exc + nat" where
  "get_file_size fs p = getsize fs p"

text \<open>\<open>read_file_header(file, size=16)\<close>: remember the position, read from the
  start, seek back.\<close>

definition read_file_header :: "int \<Rightarrow> (pyfile, byte list) pyop" where
  "read_file_header sz =
     bindp file_tell (\<lambda>current_pos.
     bindp (file_seek 0) (\<lambda>_.
     bindp (file_read sz) (\<lambda>header.
     bindp (file_seek (int current_pos)) (\<lambda>_. ret header))))"

text \<open>The magic as \<open>bytes.fromhex('C1832A9E')\<close> spells it, in written order.\<close>

definition unreal_magic_bytes :: "byte list" where
  "unreal_magic_bytes = [0xC1, 0x83, 0x2A, 0x9E]"

definition detect_file_format :: "byte list \<Rightarrow> string" where
  "detect_file_format header =
     (if length header < 4 then ''unknown''
      else if take 4 header = unreal_magic_bytes then ''unreal''
      else ''unknown'')"

subsection \<open>Configuration\<close>

text \<open>\<open>Config\<close>: \<open>DEBUG\<close> from the environment, the size limit (which no code
  reads), and the formats with their extensions and magic bytes.\<close>

record format_entry =
  extensions :: "string list"
  magic :: "byte list"

text \<open>\<open>str.lower()\<close> on ASCII letters (the only ones the comparison can match).\<close>

definition ascii_lower :: "string \<Rightarrow> string" where
  "ascii_lower s = map (\<lambda>c. let n = (of_char c :: nat) in if 65 \<le> n \<and> n \<le> 90 then char_of (n + 32) else c) s"

definition config_debug :: "(string \<rightharpoonup> string) \<Rightarrow> bool" where
  "config_debug env = (ascii_lower (case env ''DEBUG'' of None \<Rightarrow> ''False'' | Some v \<Rightarrow> v) = ''true'')"

definition MAX_FILE_SIZE :: nat where
  "MAX_FILE_SIZE = 1024 * 1024 * 100"

definition SUPPORTED_FORMATS :: "(string \<times> format_entry) list" where
  "SUPPORTED_FORMATS = [(''unreal'', \<lparr>extensions = [''.uasset''], magic = unreal_magic_bytes\<rparr>)]"

subsection \<open>Behaviour\<close>

text \<open>
  C20 (functional).  \<open>read_file_header\<close> on an open file whose position fits
  an offset, with a size in range, returns the first bytes of the file and
  leaves the file object exactly as it found it, position included.
\<close>

theorem read_file_header_open:
  assumes "\<not> fclosed f" and "0 \<le> n" and "n \<le> ssize_max" and "int (fpos f) \<le> ssize_max"
  shows "read_file_header n f = (Inr (take (nat n) (fdata f)), f)"
  using assms
  by (simp add: read_file_header_def bindp_def file_tell_def file_seek_def file_read_def
      fits_ssize_def ssize_max_def Let_def ret_def)

lemma detect_file_format_unreal:
  "detect_file_format h = ''unreal'' \<longleftrightarrow> take 4 h = unreal_magic_bytes"
  by (auto simp: detect_file_format_def unreal_magic_bytes_def dest: arg_cong [where f = length])

text \<open>The bytes the detector looks for are not the magic as the decoder reads it.\<close>

lemma le_nat_unreal_magic_bytes: "le_nat unreal_magic_bytes = 0x9E2A83C1"
  by (simp add: unreal_magic_bytes_def)

lemma u32_at_detected: "take 4 d = unreal_magic_bytes \<Longrightarrow> u32_at d 0 = 0x9E2A83C1"
  by (simp add: u32_at_def le_nat_unreal_magic_bytes)

theorem read_file_header_open_witness:
  "read_file_header 2 \<lparr>fdata = [7, 8, 9], fpos = 1, fclosed = False\<rparr> =
     (Inr [7, 8], \<lparr>fdata = [7, 8, 9], fpos = 1, fclosed = False\<rparr>)"
  using read_file_header_open [of "\<lparr>fdata = [7, 8, 9], fpos = 1, fclosed = False\<rparr>" 2]
  by (simp add: ssize_max_def)

text \<open>
  C21 (functional).  The detector answers only \<open>unreal\<close> or \<open>unknown\<close>, and
  \<open>unreal\<close> exactly when there are at least four bytes and the first four are
  \<open>C1 83 2A 9E\<close> in written order.
\<close>

theorem detect_file_format_spec:
  "detect_file_format h \<in> {''unreal'', ''unknown''} \<and>
   (detect_file_format h = ''unreal'' \<longleftrightarrow> 4 \<le> length h \<and> take 4 h = [0xC1, 0x83, 0x2A, 0x9E])"
proof -
  have "take 4 h = [0xC1, 0x83, 0x2A, 0x9E] \<Longrightarrow> 4 \<le> length h"
  proof -
    assume "take 4 h = [0xC1, 0x83, 0x2A, 0x9E]"
    then have "length (take 4 h) = 4" by simp
    then show "4 \<le> length h" by simp
  qed
  then show ?thesis by (auto simp: detect_file_format_def unreal_magic_bytes_def)
qed

end
