(* ===== verification/Api.thy ===== *)
theory Api
  imports UnrealReader
begin

text \<open>
  The HTTP front-end of \<open>src/src/api\<close>: the request and response models of
  \<open>schemas.py\<close> and the \<open>POST /analyze\<close> handler of \<open>routes.py\<close>.  The JSON
  body is a value of \<open>pyval\<close> (objects, strings, integers and \<open>null\<close>; JSON
  arrays, booleans and floats are not modelled).  Request validation follows
  pydantic v2 in its default lax mode for a model with fields \<open>file_path: str\<close>
  and \<open>format: Optional[str] = "auto"\<close>: the body must be an object, extra keys
  are ignored, a duplicated key keeps its last value (Python's \<open>json\<close>), a
  \<open>str\<close> field accepts only a string, and every failing field is reported,
  in field order, with status 422.  The handler runs the Unreal decoder in a
  \<open>with\<close> block and turns any exception into status 400 with \<open>str(e)\<close>.
\<close>

record analysis_request =
  req_file_path :: string
  req_format :: "string option"

record analysis_response =
  resp_file_path :: string
  resp_header :: pydict
  resp_metadata :: pydict
  resp_format :: string

text \<open>
  What the client receives: the response model (status 200), an
  \<open>HTTPException\<close> with its status and detail, or a validation error listing
  the locations of the fields that failed (status 422).
\<close>

datatype api_reply =
    ApiOk analysis_response
  | ApiError nat string
  | ApiInvalid "string list"

text \<open>A JSON object's value for a key; the last occurrence wins.\<close>

definition json_field :: "pydict \<Rightarrow> string \<Rightarrow> pyval option" where
  "json_field kvs k = map_of (rev kvs) k"

definition validate_file_path :: "pyval option \<Rightarrow> string option" where
  "validate_file_path v = (case v of Some (PStr s) \<Rightarrow> Some s | _ \<Rightarrow> None)"

text \<open>\<open>Optional[str] = "auto"\<close>: absent gives the default, \<open>null\<close> gives \<open>None\<close>.\<close>

definition validate_format :: "pyval option \<Rightarrow> string option option" where
  "validate_format v =
     (case v of
        None \<Rightarrow> Some (Some ''auto'')
      | Some PNone \<Rightarrow> Some None
      | Some (PStr s) \<Rightarrow> Some (Some s)
      | Some _ \<Rightarrow> None)"

definition validate_request :: "pyval \<Rightarrow> string list + analysis_request" where
  "validate_request body =
     (case body of
        PDict kvs \<Rightarrow>
          (case (validate_file_path (json_field kvs ''file_path''),
                 validate_format (json_field kvs ''format'')) of
             (Some p, Some f) \<Rightarrow> Inr \<lparr>req_file_path = p, req_format = f\<rparr>
           | (fp, f) \<Rightarrow> Inl ((if fp = None then [''file_path''] else []) @
                             (if f = None then [''format''] else [])))
      | _ \<Rightarrow> Inl [''body''])"

text \<open>
  \<open>analyze_binary_file\<close>: the reader is always \<open>UnrealAssetReader\<close>, whatever
  the request's \<open>format\<close>; \<open>except Exception\<close> catches every exception of the
  constructor, \<open>__enter__\<close>, the two reads and \<open>__exit__\<close>.
\<close>

definition analyze_binary_file :: "filesystem \<Rightarrow> pyval \<Rightarrow> api_reply" where
  "analyze_binary_file fs body =
     (case validate_request body of
        Inl locs \<Rightarrow> ApiInvalid locs
      | Inr rq \<Rightarrow>
          (case fst (with_reader fs UnrealAssetReaderCls (req_file_path rq) read_asset) of
             Inr (h, m) \<Rightarrow>
               ApiOk \<lparr>resp_file_path = req_file_path rq, resp_header = h, resp_metadata = m,
                      resp_format = ''unreal''\<rparr>
           | Inl e \<Rightarrow> ApiError 400 (exc_str e)))"

subsection \<open>Behaviour of the handler\<close>

text \<open>A request that validates is decoded from the named file.\<close>

lemma analyze_valid:
  "validate_request body = Inr \<lparr>req_file_path = p, req_format = f\<rparr> \<Longrightarrow>
     analyze_binary_file fs body =
       (case fs p of
          None \<Rightarrow> ApiError 400 (exc_str (FileNotFoundError p))
        | Some d \<Rightarrow>
            (case decode_asset d of
               Inr (h, m) \<Rightarrow>
                 ApiOk \<lparr>resp_file_path = p, resp_header = h, resp_metadata = m, resp_format = ''unreal''\<rparr>
             | Inl e \<Rightarrow> ApiError 400 (exc_str e)))"
  by (cases "fs p")
     (simp_all add: analyze_binary_file_def with_reader_missing with_reader_open read_asset_decode
                    split: sum.split)

lemma validate_request_ok:
  "json_field kvs ''file_path'' = Some (PStr p) \<Longrightarrow> validate_format (json_field kvs ''format'') = Some f \<Longrightarrow>
     validate_request (PDict kvs) = Inr \<lparr>req_file_path = p, req_format = f\<rparr>"
  by (simp add: validate_request_def validate_file_path_def)

text \<open>
  C8 (functional).  A body that is an object with a string \<open>file_path\<close> and
  a valid \<open>format\<close> is answered from the named file alone: status 400 with
  the \<open>FileNotFoundError\<close> text when it is missing, the two dicts of the
  decoder with format \<open>unreal\<close> when they decode, and status 400 with the
  decoder's exception otherwise.  The requested format plays no part.
\<close>

theorem analyze_reply:
  assumes "json_field kvs ''file_path'' = Some (PStr p)"
    and "validate_format (json_field kvs ''format'') = Some f"
  shows "analyze_binary_file fs (PDict kvs) =
    (case fs p of
       None \<Rightarrow> ApiError 400 (''[Errno 2] No such file or directory: '' @ py_repr_str p)
     | Some d \<Rightarrow>
         (case decode_asset d of
            Inr (h, m) \<Rightarrow>
              ApiOk \<lparr>resp_file_path = p, resp_header = h, resp_metadata = m, resp_format = ''unreal''\<rparr>
          | Inl e \<Rightarrow> ApiError 400 (exc_str e)))"
  using analyze_valid [OF validate_request_ok [OF assms], of fs] by (cases "fs p") (simp_all add: exc_str_def)

theorem analyze_reply_witness:
  "json_field [(''file_path'', PStr ''a.uasset''), (''format'', PStr ''x'')] ''file_path'' = Some (PStr ''a.uasset'') \<and>
   validate_format (json_field [(''file_path'', PStr ''a.uasset''), (''format'', PStr ''x'')] ''format'') = Some (Some ''x'') \<and>
   analyze_binary_file Map.empty (PDict [(''file_path'', PStr ''a.uasset''), (''format'', PStr ''x'')]) =
     ApiError 400 (''[Errno 2] No such file or directory: '' @ py_repr_str ''a.uasset'')"
  using analyze_reply [of "[(''file_path'', PStr ''a.uasset''), (''format'', PStr ''x'')]" "''a.uasset''" "Some ''x''" Map.empty]
  by (simp add: json_field_def validate_format_def)

text \<open>
  C9 (error).  A body without \<open>file_path\<close> is refused with a validation error
  naming it (and \<open>format\<close> too when that is not a string or \<open>null\<close>); no file
  is opened, so the reply is the same for every file system.
\<close>

theorem analyze_missing_file_path:
  assumes "json_field kvs ''file_path'' = None"
  shows "analyze_binary_file fs (PDict kvs) =
           ApiInvalid (''file_path'' # (if validate_format (json_field kvs ''format'') = None then [''format''] else []))"
  using assms
  by (simp add: analyze_binary_file_def validate_request_def validate_file_path_def split: option.split)

theorem analyze_missing_file_path_witness:
  "json_field [(''format'', PInt 3)] ''file_path'' = None \<and>
   analyze_binary_file Map.empty (PDict [(''format'', PInt 3)]) = ApiInvalid [''file_path'', ''format'']"
  using analyze_missing_file_path [of "[(''format'', PInt 3)]" Map.empty]
  by (simp add: json_field_def validate_format_def)

end
