(* ===== verification/Tests.thy ===== *)
theory Tests
  imports Api "HOL-Library.Sublist"
begin

text \<open>
  The test suite of \<open>src/tests\<close> as executable predicates.  A fixture that
  writes a file under \<open>tmp_path\<close> becomes an update of the file system at the
  path it writes; a test is true when pytest reports it as passed, that is
  when every \<open>assert\<close> holds and no exception escapes the test function.
  \<open>pytest.raises(E, match=pat)\<close> passes when the block raises an \<open>E\<close> whose
  \<open>str\<close> contains a match of \<open>pat\<close> (Python's \<open>re.search\<close>); the patterns of
  the suite use no regular-expression syntax but \<open>.\<close>, which matches any
  character except a newline.  The HTTP test client is the handler
  \<open>analyze_binary_file\<close> of \<open>Api\<close> with the status code and JSON body FastAPI
  gives its reply.
\<close>

section \<open>The files the tests write\<close>

text \<open>
  The mock asset of \<open>test_binary_reader.py\<close> (magic bytes \<open>C1 83 2A 9E\<close>,
  then the seven fields 1, 2, 3, 100, 1, 10, 1000 little-endian), the invalid
  file of the same module, and the mock asset of \<open>test_api.py\<close> (the same
  magic bytes and 28 zero bytes).
\<close>

definition test_unreal_asset_bytes :: "byte list" where
  "test_unreal_asset_bytes =
     [0xC1, 0x83, 0x2A, 0x9E, 1, 0, 0, 0, 2, 0, 0, 0, 3, 0, 0, 0, 100, 0, 0, 0,
      1, 0, 0, 0, 10, 0, 0, 0, 0xE8, 3, 0, 0]"

definition test_invalid_bytes :: "byte list" where
  "test_invalid_bytes = map (\<lambda>c. of_nat (of_char c)) ''invalid data''"

definition test_api_mock_bytes :: "byte list" where
  "test_api_mock_bytes = [0xC1, 0x83, 0x2A, 0x9E] @ replicate 28 0"

text \<open>
  A file the decoder accepts: the magic in the byte order \<open>'<I'\<close> reads as
  \<open>0xC1832A9E\<close> (\<open>9E 2A 83 C1\<close>), then 28 zero bytes.
\<close>

definition accepted_asset_bytes :: "byte list" where
  "accepted_asset_bytes = [0x9E, 0x2A, 0x83, 0xC1] @ replicate 28 0"

section \<open>pytest and the test client\<close>

text \<open>\<open>re.search\<close> for a pattern whose only special character is \<open>.\<close>.\<close>

fun re_match_prefix :: "string \<Rightarrow> string \<Rightarrow> bool" where
  "re_match_prefix [] s = True"
| "re_match_prefix (c # cs) [] = False"
| "re_match_prefix (c # cs) (x # xs) =
     ((if c = CHR ''.'' then x \<noteq> CHR 0x0A else x = c) \<and> re_match_prefix cs xs)"

fun re_search :: "string \<Rightarrow> string \<Rightarrow> bool" where
  "re_search pat [] = re_match_prefix pat []"
| "re_search pat (x # xs) = (re_match_prefix pat (x # xs) \<or> re_search pat xs)"

text \<open>
  \<open>with pytest.raises(E, match=pat): body\<close>: passes on an exception of class
  \<open>E\<close> (here \<open>ValueError\<close>, subclasses included) whose text matches.
\<close>

definition raises_value_error :: "string \<Rightarrow> exc + 'a \<Rightarrow> bool" where
  "raises_value_error pat res =
     (case res of Inl e \<Rightarrow> is_value_error e \<and> re_search pat (exc_str e) | Inr _ \<Rightarrow> False)"

text \<open>
  The status code of a reply: the response model is served with 200, an
  \<open>HTTPException\<close> with its own code, a validation error with 422.
\<close>

definition api_status :: "api_reply \<Rightarrow> nat" where
  "api_status rp = (case rp of ApiOk _ \<Rightarrow> 200 | ApiError n _ \<Rightarrow> n | ApiInvalid _ \<Rightarrow> 422)"

text \<open>The JSON object of a \<open>BinaryAnalysisResponse\<close>, in field order.\<close>

definition response_json :: "analysis_response \<Rightarrow> pydict" where
  "response_json rs =
     [(''file_path'', PStr (resp_file_path rs)), (''header'', PDict (resp_header rs)),
      (''metadata'', PDict (resp_metadata rs)), (''format'', PStr (resp_format rs))]"

section \<open>The tests\<close>

text \<open>
  \<open>test_binary_reader.py\<close>: the fixture writes the mock asset at the path
  \<open>p\<close>; the two reader tests read it in a \<open>with\<close> block and compare the dict
  entries, a missing key being a \<open>KeyError\<close>.
\<close>

definition fixture_unreal_asset :: "filesystem \<Rightarrow> string \<Rightarrow> filesystem" where
  "fixture_unreal_asset fs p = fs(p \<mapsto> test_unreal_asset_bytes)"

definition test_unreal_asset_reader_header :: "filesystem \<Rightarrow> string \<Rightarrow> bool" where
  "test_unreal_asset_reader_header fs p =
     (case fst (with_reader (fixture_unreal_asset fs p) UnrealAssetReaderCls p read_header) of
        Inr h \<Rightarrow> json_field h ''magic'' = Some (PStr ''0xc1832a9e'') \<and>
                json_field h ''legacy_version'' = Some (PInt 1) \<and>
                json_field h ''legacy_ue3_version'' = Some (PInt 2) \<and>
                json_field h ''file_version_ue4'' = Some (PInt 3) \<and>
                json_field h ''file_size'' = Some (PInt 100)
      | Inl _ \<Rightarrow> False)"

definition test_unreal_asset_reader_metadata :: "filesystem \<Rightarrow> string \<Rightarrow> bool" where
  "test_unreal_asset_reader_metadata fs p =
     (case fst (with_reader (fixture_unreal_asset fs p) UnrealAssetReaderCls p
                  (bindp read_header (\<lambda>_. read_metadata))) of
        Inr m \<Rightarrow> json_field m ''flags'' = Some (PInt 1) \<and>
                json_field m ''element_count'' = Some (PInt 10) \<and>
                json_field m ''bulk_data_size'' = Some (PInt 1000)
      | Inl _ \<Rightarrow> False)"

definition test_invalid_unreal_asset_file :: "filesystem \<Rightarrow> string \<Rightarrow> bool" where
  "test_invalid_unreal_asset_file fs p =
     raises_value_error ''Not a valid .uasset file''
       (fst (with_reader (fs(p \<mapsto> test_invalid_bytes)) UnrealAssetReaderCls p read_header))"

text \<open>
  \<open>test_api.py\<close>: the client posts JSON bodies to the handler; the first test
  names a relative path that is looked up as it is, the third the path of the
  file it wrote.
\<close>

definition test_analyze_endpoint_missing_file :: "filesystem \<Rightarrow> string \<Rightarrow> bool" where
  "test_analyze_endpoint_missing_file fs p =
     (case analyze_binary_file fs (PDict [(''file_path'', PStr ''nonexistent.uasset'')]) of
        ApiError n d \<Rightarrow> n = 400 \<and> sublist ''File not found'' d
      | _ \<Rightarrow> False)"

definition test_analyze_endpoint_invalid_request :: "filesystem \<Rightarrow> string \<Rightarrow> bool" where
  "test_analyze_endpoint_invalid_request fs p = (api_status (analyze_binary_file fs (PDict [])) = 422)"

definition test_analyze_endpoint_with_mock_file :: "filesystem \<Rightarrow> string \<Rightarrow> bool" where
  "test_analyze_endpoint_with_mock_file fs p =
     (case analyze_binary_file (fs(p \<mapsto> test_api_mock_bytes)) (PDict [(''file_path'', PStr p)]) of
        ApiOk rs \<Rightarrow> json_field (response_json rs) ''format'' = Some (PStr ''unreal'') \<and>
                   ''header'' \<in> set (map fst (response_json rs)) \<and>
                   ''metadata'' \<in> set (map fst (response_json rs))
      | _ \<Rightarrow> False)"

text \<open>The six tests in the order pytest collects them.\<close>

definition test_suite :: "(filesystem \<Rightarrow> string \<Rightarrow> bool) list" where
  "test_suite =
     [test_analyze_endpoint_missing_file, test_analyze_endpoint_invalid_request,
      test_analyze_endpoint_with_mock_file, test_unreal_asset_reader_header,
      test_unreal_asset_reader_metadata, test_invalid_unreal_asset_file]"

section \<open>Lemmas on the tests\<close>

text \<open>Python's \<open>s in t\<close> for a pattern whose first character \<open>t\<close> lacks.\<close>

lemma not_sublist_head: "x \<notin> set ys \<Longrightarrow> \<not> sublist (x # xs) ys"
  by (auto dest: set_mono_sublist)

lemma re_search_self: "CHR 0x0A \<notin> set s \<Longrightarrow> re_search s s"
proof -
  have "CHR 0x0A \<notin> set s \<Longrightarrow> re_match_prefix s s" for s
    by (induction s) auto
  moreover assume "CHR 0x0A \<notin> set s"
  ultimately show ?thesis by (cases s) simp_all
qed

text \<open>A file whose first four bytes are not the magic fails the header read of a \<open>with\<close> block.\<close>

lemma with_reader_bad_magic:
  assumes "fs p = Some d" and "4 \<le> length d" and "u32_at d 0 \<noteq> MAGIC"
  shows "fst (with_reader fs UnrealAssetReaderCls p read_header) = Inl (ValueError ''Not a valid .uasset file'')"
    and "fst (with_reader fs UnrealAssetReaderCls p (bindp read_header f)) = Inl (ValueError ''Not a valid .uasset file'')"
  using assms read_header_bad_magic [of 0 d] by (simp_all add: with_reader_open bindp_def)

text \<open>A body holding only a path: the handler with the default format.\<close>

lemma analyze_path_only:
  "analyze_binary_file fs (PDict [(''file_path'', PStr q)]) =
     (case fs q of
        None \<Rightarrow> ApiError 400 (exc_str (FileNotFoundError q))
      | Some d \<Rightarrow>
          (case decode_asset d of
             Inr (h, m) \<Rightarrow>
               ApiOk \<lparr>resp_file_path = q, resp_header = h, resp_metadata = m, resp_format = ''unreal''\<rparr>
           | Inl e \<Rightarrow> ApiError 400 (exc_str e)))"
  by (rule analyze_valid)
     (simp add: validate_request_def validate_file_path_def validate_format_def json_field_def)

lemma test_unreal_asset_magic: "u32_at test_unreal_asset_bytes 0 \<noteq> MAGIC"
  and test_invalid_magic: "u32_at test_invalid_bytes 0 \<noteq> MAGIC"
  by (simp_all add: u32_at_def MAGIC_def test_unreal_asset_bytes_def test_invalid_bytes_def)

lemma decode_test_api_mock: "decode_asset test_api_mock_bytes = Inl (ValueError ''Not a valid .uasset file'')"
  by (simp add: decode_asset_def parse_asset_def asset_error_def u32_at_def MAGIC_def test_api_mock_bytes_def)

lemma missing_file_text:
  "\<not> sublist ''File not found'' (exc_str (FileNotFoundError ''nonexistent.uasset''))"
  by (rule not_sublist_head) (simp add: py_text_eval)

section \<open>Outcome of the suite\<close>

text \<open>
  C26 (functional).  Run against the code, the suite passes two of its six
  tests, the validation test and \<open>test_invalid_unreal_asset_file\<close>, for every
  temporary path and every file system in which \<open>nonexistent.uasset\<close> is
  absent: the missing-file test finds CPython's text in place of "File not
  found", and the three tests that read a mock asset see it refused, since
  its magic is written in the byte order the decoder does not read.
\<close>

theorem test_suite_outcomes:
  assumes "fs ''nonexistent.uasset'' = None"
  shows "map (\<lambda>t. t fs p) test_suite = [False, True, False, False, False, True]"
proof -
  have "\<not> test_analyze_endpoint_missing_file fs p"
    using assms missing_file_text by (simp add: test_analyze_endpoint_missing_file_def analyze_path_only)
  moreover have "test_analyze_endpoint_invalid_request fs p"
    by (simp add: test_analyze_endpoint_invalid_request_def analyze_binary_file_def validate_request_def
        validate_file_path_def validate_format_def json_field_def api_status_def)
  moreover have "\<not> test_analyze_endpoint_with_mock_file fs p"
    by (simp add: test_analyze_endpoint_with_mock_file_def analyze_path_only decode_test_api_mock)
  moreover have "4 \<le> length test_unreal_asset_bytes" and "4 \<le> length test_invalid_bytes"
    by (simp_all add: test_unreal_asset_bytes_def test_invalid_bytes_def)
  ultimately show ?thesis
    using with_reader_bad_magic [of "fixture_unreal_asset fs p" p test_unreal_asset_bytes]
      with_reader_bad_magic(2) [of "fixture_unreal_asset fs p" p test_unreal_asset_bytes "\<lambda>_. read_metadata"]
      with_reader_bad_magic [of "fs(p \<mapsto> test_invalid_bytes)" p test_invalid_bytes]
      test_unreal_asset_magic test_invalid_magic re_search_self [of "''Not a valid .uasset file''"]
    by (simp add: test_suite_def test_unreal_asset_reader_header_def test_unreal_asset_reader_metadata_def
        test_invalid_unreal_asset_file_def raises_value_error_def fixture_unreal_asset_def exc_str_def)
qed

theorem test_suite_outcomes_witness:
  "map (\<lambda>t. t Map.empty ''/tmp/pytest-0/test.uasset'') test_suite = [False, True, False, False, False, True]"
  using test_suite_outcomes [of Map.empty] by simp

end
