(* ===== verification/Lifecycle.thy ===== *)
theory Lifecycle
  imports UnrealReader
begin

text \<open>
  The life of one \<open>UnrealAssetReader\<close> object as a state machine.  Its
  state is the record \<open>reader\<close>; a step is one method call, made on any
  state whether or not an earlier call raised (a caller may catch the
  exception and go on), so the step function keeps the state each method
  leaves and drops its result.  \<open>reader_reach fs p\<close> is the set of states
  reachable from \<open>UnrealAssetReader(p)\<close> by any sequence of calls,
  \<open>__enter__\<close> and \<open>__exit__\<close> included, in any order and any number of
  times.  The invariant \<open>reader_wf\<close> collects what holds in all of them;
  \<open>cursor_inv\<close> is not among it (theorem \<open>reenter_desyncs_cursor\<close>).
\<close>

datatype reader_op =
    OpEnter
  | OpExit
  | OpReadBytes int
  | OpReadUInt32
  | OpReadInt32
  | OpReadFloat
  | OpReadString codec
  | OpSeek int
  | OpPosition
  | OpReadHeader
  | OpReadMetadata
  | OpReadNameTable

fun run_op :: "filesystem \<Rightarrow> reader_op \<Rightarrow> reader \<Rightarrow> reader" where
  "run_op fs OpEnter r = snd (reader_enter fs r)"
| "run_op fs OpExit r = reader_exit r"
| "run_op fs (OpReadBytes n) r = snd (read_bytes n r)"
| "run_op fs OpReadUInt32 r = snd (read_uint32 r)"
| "run_op fs OpReadInt32 r = snd (read_int32 r)"
| "run_op fs OpReadFloat r = snd (read_float r)"
| "run_op fs (OpReadString enc) r = snd (read_string_enc enc r)"
| "run_op fs (OpSeek t) r = snd (seek t r)"
| "run_op fs OpPosition r = snd (get_position r)"
| "run_op fs OpReadHeader r = snd (read_header r)"
| "run_op fs OpReadMetadata r = snd (read_metadata r)"
| "run_op fs OpReadNameTable r = snd (read_name_table r)"

text \<open>A whole script of calls, in order.\<close>

definition run_ops :: "filesystem \<Rightarrow> reader_op list \<Rightarrow> reader \<Rightarrow> reader" where
  "run_ops fs ops r = fold (run_op fs) ops r"

inductive reader_reach :: "filesystem \<Rightarrow> string \<Rightarrow> reader \<Rightarrow> bool" for fs p where
  init: "reader_reach fs p (reader_init p)"
| step: "reader_reach fs p r \<Longrightarrow> reader_reach fs p (run_op fs op r)"

text \<open>
  The invariant: the path never changes; the cursor is never negative, and
  is 0 while no file has been opened; an opened file holds the bytes of the
  path (open or closed, the reader never writes).
\<close>

definition reader_wf :: "filesystem \<Rightarrow> string \<Rightarrow> reader \<Rightarrow> bool" where
  "reader_wf fs p r \<longleftrightarrow>
     file_path r = p \<and> 0 \<le> position r \<and> (rfile r = None \<longrightarrow> position r = 0) \<and>
     (\<forall>f. rfile r = Some f \<longrightarrow> fs p = Some (fdata f))"

subsection \<open>Every method keeps the invariant\<close>

lemma preserves_wf_read_bytes: "preserves (reader_wf fs p) (read_bytes n)"
  unfolding preserves_def reader_wf_def read_bytes_def
  by (auto split: option.splits prod.splits sum.splits dest: file_read_frame)

lemma preserves_wf_seek: "preserves (reader_wf fs p) (seek t)"
  unfolding preserves_def reader_wf_def seek_def
  by (auto split: option.splits prod.splits sum.splits dest: file_seek_frame file_seek_Inr)

lemma reader_wf_enter: "reader_wf fs p r \<Longrightarrow> reader_wf fs p (snd (reader_enter fs r))"
  by (auto simp: reader_wf_def reader_enter_def py_open_rb_def split: option.splits)

lemma reader_wf_exit: "reader_wf fs p r \<Longrightarrow> reader_wf fs p (reader_exit r)"
  by (auto simp: reader_wf_def reader_exit_def file_close_def split: option.splits)

lemma reader_wf_run_op:
  assumes "reader_wf fs p r"
  shows "reader_wf fs p (run_op fs op r)"
proof (cases op)
  case OpEnter
  then show ?thesis using assms by (simp add: reader_wf_enter)
next
  case OpExit
  then show ?thesis using assms by (simp add: reader_wf_exit)
next
  case (OpSeek t)
  then show ?thesis using assms preserves_wf_seek by (auto simp: preserves_def)
next
  case OpPosition
  then show ?thesis using assms by (simp add: get_position_def)
qed (use assms preserves_wf_read_bytes preserves_reads_of [OF preserves_wf_read_bytes]
       preserves_read_string_enc_of [OF preserves_wf_read_bytes] preserves_read_header_of [OF preserves_wf_read_bytes]
       preserves_read_metadata_of [OF preserves_wf_read_bytes] preserves_read_name_table_of [OF preserves_wf_read_bytes]
     in \<open>auto simp: preserves_def\<close>)

text \<open>
  C22 (invariant).  In every state an \<open>UnrealAssetReader(p)\<close> can reach by
  any sequence of method calls, the path is \<open>p\<close>, the cursor is
  non-negative and 0 until a file is opened, and an opened file holds the
  bytes of \<open>p\<close>.
\<close>

theorem reader_reach_wf: "reader_reach fs p r \<Longrightarrow> reader_wf fs p r"
proof (induction rule: reader_reach.induct)
  case init
  then show ?case by (simp add: reader_wf_def reader_init_def)
next
  case (step r op)
  from step.IH show ?case by (rule reader_wf_run_op)
qed

lemma run_ops_snoc [simp]: "run_ops fs (ops @ [op]) r = run_op fs op (run_ops fs ops r)"
  by (simp add: run_ops_def)

lemma reader_reach_run_ops: "reader_reach fs p (run_ops fs ops (reader_init p))"
proof (induction ops rule: rev_induct)
  case Nil
  then show ?case by (simp add: run_ops_def reader_reach.init)
next
  case (snoc op ops)
  then show ?case by (simp add: reader_reach.step)
qed

text \<open>No method changes the path: a frame property of the machine.\<close>

lemma preserves_path_read_bytes: "preserves (\<lambda>r. file_path r = x) (read_bytes n)"
  unfolding preserves_def read_bytes_def by (auto split: option.splits prod.splits sum.splits)

lemma run_op_file_path [simp]: "file_path (run_op fs op r) = file_path r"
proof -
  have seek: "preserves (\<lambda>r. file_path r = x) (seek t)" for x t
    unfolding preserves_def seek_def by (auto split: option.splits prod.splits sum.splits)
  note rb = preserves_path_read_bytes
  show ?thesis
    using seek [of "file_path r"] rb [of "file_path r"] preserves_reads_of [OF rb, of "file_path r"]
      preserves_read_string_enc_of [OF rb, of "file_path r"] preserves_read_header_of [OF rb, of "file_path r"]
      preserves_read_metadata_of [OF rb, of "file_path r"] preserves_read_name_table_of [OF rb, of "file_path r"]
    by (cases op) (auto simp: preserves_def reader_enter_def reader_exit_def get_position_def
                         split: sum.splits option.splits)
qed

lemma reader_reach_file_path: "reader_reach fs p r \<Longrightarrow> file_path r = p"
  by (induction rule: reader_reach.induct) (simp_all add: reader_init_def)

text \<open>
  C23 (liveness).  Whatever happened before (reads past the end, failed
  seeks, an earlier \<open>__exit__\<close>), entering the reader again on an existing
  file makes it readable from the first byte: the next read returns the
  file's leading bytes, although the cursor may disagree (C7).
\<close>

theorem reenter_reads_from_start:
  assumes "reader_reach fs p r" and "fs p = Some d" and "0 \<le> n" and "n \<le> ssize_max"
  shows "fst (read_bytes n (run_op fs OpEnter r)) = Inr (take (nat n) d)"
proof -
  have "file_path r = p" using assms(1) by (rule reader_reach_file_path)
  then have "run_op fs OpEnter r = r\<lparr>rfile := Some \<lparr>fdata = d, fpos = 0, fclosed = False\<rparr>\<rparr>"
    using assms(2) by (simp add: reader_enter_def py_open_rb_def)
  then show ?thesis
    using assms(3,4) file_read_open [of "\<lparr>fdata = d, fpos = 0, fclosed = False\<rparr>" n]
    by (simp add: read_bytes_def)
qed

text \<open>A reader used in one block, exited, then asked to seek to \<open>-1\<close>.\<close>

theorem reader_reach_wf_witness:
  "reader_wf [''a'' \<mapsto> [1, 2, 3, 4]] ''a''
     (run_ops [''a'' \<mapsto> [1, 2, 3, 4]] [OpEnter, OpReadUInt32, OpExit, OpSeek (-1)] (reader_init ''a''))"
  using reader_reach_wf [OF reader_reach_run_ops] by blast

text \<open>The same reader entered a second time after its first block.\<close>

theorem reenter_reads_from_start_witness:
  "fst (read_bytes 2 (run_op [''a'' \<mapsto> [1, 2, 3, 4]] OpEnter
      (run_ops [''a'' \<mapsto> [1, 2, 3, 4]] [OpEnter, OpReadUInt32, OpExit] (reader_init ''a'')))) = Inr [1, 2]"
  using reenter_reads_from_start [of "[''a'' \<mapsto> [1, 2, 3, 4]]" "''a''"
      "run_ops [''a'' \<mapsto> [1, 2, 3, 4]] [OpEnter, OpReadUInt32, OpExit] (reader_init ''a'')" "[1, 2, 3, 4]" 2]
    reader_reach_run_ops [of "[''a'' \<mapsto> [1, 2, 3, 4]]" "''a''" "[OpEnter, OpReadUInt32, OpExit]"]
  by (simp add: ssize_max_def)

end
