(* ===== verification/Spec2Isabelle.thy ===== *)
theory Spec2Isabelle
  imports Session Utils Tests Lifecycle
begin

text \<open>
  \<^bold>\<open>A verification development of binary-reader-mcp.\<close>

  The program reads Unreal Engine \<open>.uasset\<close> files.  A cursor reader over a
  file object (\<open>src/src/binary_reader/base_reader.py\<close>, class
  \<open>BinaryReader\<close>) offers little-endian integer, float and string reads; its
  subclass \<open>UnrealAssetReader\<close> (\<open>unreal_reader.py\<close>) checks the magic and
  decodes the header, the metadata and the name table.  Two front-ends run it:
  the MCP tool server (\<open>src/main.py\<close>, \<open>handle_call_tool\<close>) and the HTTP
  router (\<open>src/src/api/routes.py\<close>, \<open>analyze_binary_file\<close>, with the models
  of \<open>schemas.py\<close>).  \<open>utils.py\<close> sniffs file formats and \<open>config.py\<close>
  holds constants; neither front-end calls them.

  \<^bold>\<open>Theories.\<close>
  \<^item> \<open>Prelude\<close>: bytes as \<open>8 word\<close>, \<open>u32\<close> as \<open>32 word\<close>, the Python
    exceptions as the datatype \<open>exc\<close>, and the state/exception monad
    \<open>pyop\<close> (\<open>ret\<close>, \<open>py_raise\<close>, \<open>bindp\<close>) in which every method is
    written; the state survives an exception, as a Python object's mutations
    do.  \<open>preserves P m\<close> states that \<open>m\<close> keeps an invariant on every
    outcome and composes through \<open>bindp\<close>.
  \<^item> \<open>PyValue\<close>: the Python values the decoders return (\<open>pyval\<close>), with
    \<open>repr\<close>, \<open>str\<close>, \<open>hex\<close>, \<open>dict.get\<close> and \<open>str(e)\<close> (\<open>exc_str\<close>)
    written out character by character as CPython prints them.
  \<^item> \<open>PyFile\<close>: the file system as a map from paths to bytes and the object of
    \<open>open(path, 'rb')\<close> (record \<open>pyfile\<close>) with \<open>read\<close>, \<open>seek\<close>,
    \<open>tell\<close>, \<open>close\<close> and their argument checks in CPython's order.
  \<^item> \<open>Codec\<close>: \<open>struct.unpack\<close> of \<open><I\<close>, \<open><i\<close>, \<open><f\<close>; CPython's strict
    UTF-8 and UTF-16-LE decoders with their exact error ranges; \<open>rstrip('\0')\<close>.
    These are library functions the reader calls; their encoders
    \<open>utf8_encode\<close> and \<open>utf16_encode\<close> and the lemmas that the decoders
    invert them on Unicode scalar values serve the string properties of
    \<open>BaseReader\<close>.
  \<^item> \<open>BaseReader\<close>: the record \<open>reader\<close> (\<open>file_path\<close>, \<open>_file\<close> as
    \<open>rfile\<close>, \<open>_position\<close>), one operation per method (\<open>reader_init\<close>,
    \<open>reader_enter\<close>, \<open>reader_exit\<close>, \<open>read_bytes\<close>, \<open>read_uint32\<close>,
    \<open>read_int32\<close>, \<open>read_float\<close>, \<open>read_string_enc\<close>, \<open>seek\<close>,
    the \<open>position\<close> property \<open>get_position\<close>), class
    instantiation with the abstract-class \<open>TypeError\<close>, and \<open>with_reader\<close>
    for Python's \<open>with\<close> statement.  \<open>reader_at x d p\<close> is an entered reader
    on bytes \<open>d\<close> at offset \<open>p\<close>; the lemmas give each read's result and
    new state there, and \<open>cursor_inv\<close> (cursor = file position) is preserved
    by every read and seek.  \<open>read_string\<close> is proved to read back a
    length-prefixed UTF-8 field and, for a negative prefix, a UTF-16-LE field
    whatever encoding was asked for (C10, C11), and to leave the cursor
    exactly after the prefix and the bytes it announces, clipped at the end
    of the file, whether the bytes decode or not (C24).  After a \<open>with\<close>
    block no read succeeds (C14); a truncated \<open>read_uint32\<close> raises after
    consuming the rest of the file (C15); seeking past the end and reading
    gives no bytes, a negative seek raises (C16).
  \<^item> \<open>UnrealReader\<close>: \<open>MAGIC\<close>, \<open>read_header\<close>, \<open>read_metadata\<close>,
    \<open>read_names\<close>/\<open>read_name_table\<close> and \<open>read_asset\<close> (the header then the
    metadata, as both front-ends call them).  The abstract layout
    (\<open>asset_header\<close>, \<open>asset_metadata\<close>), its parser \<open>parse_asset\<close>, its
    encoder \<open>asset_bytes\<close> and the contract \<open>decode_asset\<close> are the
    specification; C1 is the refinement of the whole \<open>with\<close> block into
    \<open>decode_asset\<close>, C2 the encode/decode round trip.  The name table is
    specified by its writer \<open>name_table_bytes\<close>; C12 reads it back, C13
    shows a non-positive count gives an empty table.  C25 gives the shape of
    the returned dicts: their keys in order, the magic as the string
    \<open>0xc1832a9e\<close>, every other value an int in \<open>[0, 2^32)\<close>.
  \<^item> \<open>Lifecycle\<close>: the reader as a state machine.  \<open>reader_op\<close> names
    each method call, \<open>run_op\<close> performs one on the reader's state
    whatever it returns, and the inductive \<open>reader_reach\<close> holds the states
    reachable from \<open>UnrealAssetReader(p)\<close>.  By rule induction every such
    state satisfies \<open>reader_wf\<close> (C22); a reader entered again reads its
    file from the start, whatever happened before (C23).
  \<^item> \<open>Utils\<close>: \<open>get_file_size\<close>, \<open>read_file_header\<close> (C20: the first bytes,
    position restored), \<open>detect_file_format\<close> (C21), and \<open>Config\<close>
    (\<open>DEBUG\<close> from the environment, \<open>MAX_FILE_SIZE\<close>, \<open>SUPPORTED_FORMATS\<close>).
  \<^item> \<open>Server\<close>: the tool list with the input schemas (properties, required
    arguments, the \<open>format\<close> enum and default), \<open>format_unreal_asset_data\<close>
    and the whole dispatcher \<open>handle_call_tool\<close>, whose reply is the text of
    its single \<open>TextContent\<close> (C3, C5, C17 to C19).  The list and the
    dispatcher agree: "Unknown tool" is the reply exactly for names not
    listed (C28), proved from the first three characters of every reply.
  \<^item> \<open>Session\<close>: the server object of \<open>main()\<close>: \<open>Server("binary_reader")\<close>
    with the library's \<open>ping\<close> handler, the two decorators as
    \<open>register\<close>, \<open>get_capabilities\<close> (a capability for each registered
    list handler), the \<open>InitializationOptions\<close> of \<open>main()\<close>, and
    \<open>handle_request\<close>/\<open>serve\<close>, which answer each request of a session in
    order with the handlers of \<open>Server\<close>.
  \<^item> \<open>Api\<close>: pydantic validation of the request body, the response model and
    \<open>analyze_binary_file\<close> (C8, C9).
  \<^item> \<open>Tests\<close>: the files the fixtures of \<open>src/tests\<close> write and each test
    function as a predicate that holds when pytest passes it, with
    \<open>pytest.raises(match=...)\<close> as \<open>re.search\<close> and the test client as the
    handler's status and JSON body.  C26 computes the suite's outcome: two of
    the six tests pass.
  \<^item> This theory: the properties that span components: the detector/decoder
    disagreement on the magic (C4), the cursor invariant (C6), its failure on
    re-entry (C7), and the agreement of the two front-ends on every file: the
    HTTP handler succeeds exactly when the MCP tool renders the same dicts,
    and its error detail is the text the tool reports (C27).

  \<^bold>\<open>Bounds.\<close>  Integers are Python's unbounded \<open>int\<close>; the platform limits
  appear where CPython checks them: sizes and offsets must fit
  \<open>Py_ssize_t\<close> (\<open>ssize_max\<close> = \<open>2^63 - 1\<close>).  A decoded \<open><i\<close> length has
  absolute value at most \<open>2^31\<close>, so \<open>2 * |length|\<close> always fits and the
  reader never reaches the overflow branch; the lemmas prove this bound.  No
  loop needs fuel: the decoders recurse on the byte list and
  \<open>read_names\<close> on the count.

  \<^bold>\<open>Findings.\<close>  The decoder reads the magic little-endian, so the byte
  sequence \<open>C1 83 2A 9E\<close> that the tests write, \<open>detect_file_format\<close>
  matches and \<open>config.py\<close> lists is rejected (C4); the generic tool
  instantiates the abstract class and always fails (C5), also for the format
  \<open>custom\<close> its schema offers; \<open>__enter__\<close> does not reset the cursor
  (C7); of the repository's six tests only the validation test and the
  invalid-file test pass, the HTTP detail for a missing file lacking the
  words the API test looks for (C26).

  \<^bold>\<open>Not modelled.\<close>  The real value of a \<open>'<f'\<close> float (the program
  never calls \<open>read_float\<close>; its decoder is kept as a bit-level model); the stdio streams of \<open>main()\<close> (\<open>stdio_server\<close>), the
  JSON-RPC framing, the protocol-version negotiation and the session's
  initialisation-state checks of the MCP library; the tool descriptions; the
  import lines and \<open>__all__\<close> of \<open>__init__.py\<close>, which only re-export the
  two classes; and
  the FastAPI/pydantic machinery beyond the two request fields and the
  status codes; pytest's collection and \<open>tmp_path\<close> beyond a path; JSON arrays,
  booleans and floats in a request; \<open>MemoryError\<close> on huge reads;
  directories, permissions and non-UTF-8 paths (a path is either a regular
  file's bytes or missing); tool arguments that are not strings; the
  \<open>TypeError\<close> text of Python versions before 3.12.
\<close>

section \<open>Properties across components\<close>

text \<open>
  C4 (safety).  The format detector of \<open>utils.py\<close> and the decoder disagree on
  the byte order of the magic: every file the detector classifies as
  \<open>unreal\<close> is rejected by \<open>read_header\<close> with "Not a valid .uasset file".
\<close>

theorem detected_unreal_rejected:
  assumes "detect_file_format (take 16 d) = ''unreal''"
  shows "fst (read_asset (reader_at x d 0)) = Inl (ValueError ''Not a valid .uasset file'')"
proof -
  from assms have t: "take 4 d = unreal_magic_bytes"
    by (simp add: detect_file_format_unreal)
  then have "length (take 4 d) = 4" by (simp add: unreal_magic_bytes_def)
  then have "4 \<le> length d" by simp
  moreover from t have "u32_at d 0 \<noteq> MAGIC"
    by (simp add: u32_at_detected MAGIC_def)
  ultimately show ?thesis
    by (simp add: read_asset_decode decode_asset_def parse_asset_def asset_error_def)
qed

text \<open>The mock asset of the tests is such a file.\<close>

theorem detected_unreal_rejected_witness:
  "detect_file_format (take 16 test_unreal_asset_bytes) = ''unreal'' \<and>
   fst (read_asset (reader_at ''test.uasset'' test_unreal_asset_bytes 0)) =
     Inl (ValueError ''Not a valid .uasset file'')"
proof -
  have h: "detect_file_format (take 16 test_unreal_asset_bytes) = ''unreal''"
    by (simp add: detect_file_format_def test_unreal_asset_bytes_def unreal_magic_bytes_def)
  show ?thesis using h detected_unreal_rejected [OF h] by simp
qed

text \<open>The mock asset of the tests, served by the tool: rejected.\<close>

theorem read_unreal_asset_reply_witness:
  "handle_call_tool [''test.uasset'' \<mapsto> test_unreal_asset_bytes] ''read-unreal-asset''
     (Some [(''file_path'', ''test.uasset'')]) = ''Error: Not a valid .uasset file''"
  using Server.read_unreal_asset_reply [of "[(''file_path'', ''test.uasset'')]" "''test.uasset''"
      "[''test.uasset'' \<mapsto> test_unreal_asset_bytes]"]
  by (simp add: decode_asset_def parse_asset_def asset_error_def u32_at_def test_unreal_asset_bytes_def
      MAGIC_def exc_str_def)

text \<open>
  C6 (invariant).  Every operation of the reader, the base class's reads and
  seek and the Unreal subclass's three methods, keeps the cursor equal to the
  file's position, whether it returns or raises.
\<close>

theorem cursor_inv_preserved:
  "preserves cursor_inv (read_bytes n) \<and> preserves cursor_inv (seek t) \<and>
   preserves cursor_inv (read_string_enc enc) \<and> preserves cursor_inv read_header \<and>
   preserves cursor_inv read_metadata \<and> preserves cursor_inv read_name_table"
  by blast

theorem cursor_inv_preserved_witness:
  "cursor_inv (snd (read_header (reader_at ''t'' test_unreal_asset_bytes 0)))"
  using cursor_inv_preserved [of 0 0 UTF8] cursor_inv_reader_at [of "''t''" test_unreal_asset_bytes 0]
  by (auto simp: preserves_def)

text \<open>
  C7 (invariant, counterexample).  \<open>__enter__\<close> does not reset the cursor:
  a reader used in a second \<open>with\<close> block after reading four bytes in the first
  reports position 4 while its new file stands at 0, so the spec's invariant
  "the cursor equals the bytes consumed" fails from then on.
\<close>

theorem reenter_desyncs_cursor:
  "(let fs = [''t.uasset'' \<mapsto> test_unreal_asset_bytes];
        r1 = snd (read_uint32 (snd (reader_enter fs (reader_init ''t.uasset''))));
        r2 = snd (reader_enter fs (reader_exit r1))
    in position r2 = 4 \<and> map_option fpos (rfile r2) = Some 0 \<and> \<not> cursor_inv r2)"
proof -
  let ?fs = "[''t.uasset'' \<mapsto> test_unreal_asset_bytes]" and ?d = test_unreal_asset_bytes
  have e1: "reader_enter ?fs (reader_init ''t.uasset'') = (Inr (), reader_at ''t.uasset'' ?d 0)"
    by (simp add: reader_enter_init)
  have r1: "snd (read_uint32 (reader_at ''t.uasset'' ?d 0)) = reader_at ''t.uasset'' ?d 4"
    by (simp add: read_uint32_full test_unreal_asset_bytes_def)
  have x: "reader_exit (reader_at ''t.uasset'' ?d 4) =
      \<lparr>file_path = ''t.uasset'', rfile = Some \<lparr>fdata = ?d, fpos = 4, fclosed = True\<rparr>, position = 4\<rparr>"
    by (simp add: reader_exit_def reader_at_def file_close_def)
  have e2: "reader_enter ?fs
      \<lparr>file_path = ''t.uasset'', rfile = Some \<lparr>fdata = ?d, fpos = 4, fclosed = True\<rparr>, position = 4\<rparr> =
      (Inr (), \<lparr>file_path = ''t.uasset'', rfile = Some \<lparr>fdata = ?d, fpos = 0, fclosed = False\<rparr>, position = 4\<rparr>)"
    by (simp add: reader_enter_def py_open_rb_def)
  show ?thesis
    by (simp only: Let_def e1 snd_conv r1 x e2) (simp add: cursor_inv_def)
qed

section \<open>The two front-ends\<close>

text \<open>
  C27 (refinement).  The two front-ends agree on every file: for a
  non-empty path, \<open>POST /analyze\<close> with that path answers 200 exactly when
  the \<open>read-unreal-asset\<close> tool renders the same header and metadata, and
  otherwise answers 400 with a detail the tool also reports, after
  \<open>Error:\<close> or \<open>Unexpected error:\<close>, unless the file is missing, when
  the tool prints its own "File not found" text.  The request never fails
  validation.
\<close>

theorem front_ends_agree:
  assumes "p \<noteq> []"
  shows "(case analyze_binary_file fs (PDict [(''file_path'', PStr p)]) of
            ApiOk rs \<Rightarrow> handle_call_tool fs ''read-unreal-asset'' (Some [(''file_path'', p)]) =
                         asset_text (resp_header rs) (resp_metadata rs)
          | ApiError n msg \<Rightarrow> n = 400 \<and>
              (if fs p = None
               then handle_call_tool fs ''read-unreal-asset'' (Some [(''file_path'', p)]) =
                      ''Error: File not found - '' @ p
               else handle_call_tool fs ''read-unreal-asset'' (Some [(''file_path'', p)]) = ''Error: '' @ msg \<or>
                    handle_call_tool fs ''read-unreal-asset'' (Some [(''file_path'', p)]) = ''Unexpected error: '' @ msg)
          | ApiInvalid _ \<Rightarrow> False)"
  using assms call_tool_unreal [of "[(''file_path'', p)]" p fs]
  by (cases "fs p"; cases "decode_asset (the (fs p))") (auto simp: analyze_path_only)

theorem front_ends_agree_witness:
  "(case analyze_binary_file Map.empty (PDict [(''file_path'', PStr ''a.uasset'')]) of
      ApiOk rs \<Rightarrow> handle_call_tool Map.empty ''read-unreal-asset'' (Some [(''file_path'', ''a.uasset'')]) =
                   asset_text (resp_header rs) (resp_metadata rs)
    | ApiError n msg \<Rightarrow> n = 400 \<and>
        (if (Map.empty :: filesystem) ''a.uasset'' = None
         then handle_call_tool Map.empty ''read-unreal-asset'' (Some [(''file_path'', ''a.uasset'')]) =
                ''Error: File not found - '' @ ''a.uasset''
         else handle_call_tool Map.empty ''read-unreal-asset'' (Some [(''file_path'', ''a.uasset'')]) = ''Error: '' @ msg \<or>
              handle_call_tool Map.empty ''read-unreal-asset'' (Some [(''file_path'', ''a.uasset'')]) = ''Unexpected error: '' @ msg)
    | ApiInvalid _ \<Rightarrow> False)"
  by (rule front_ends_agree) simp

text \<open>
  The accepted file read by a fresh reader: \<open>read_header\<close> and then
  \<open>read_metadata\<close> return their dicts, which have the shape of C25.
\<close>

theorem read_dicts_shape_witness:
  "read_header (reader_at ''t'' accepted_asset_bytes 0) =
     (Inr [(''magic'', PStr ''0xc1832a9e''), (''legacy_version'', PInt 0), (''legacy_ue3_version'', PInt 0),
           (''file_version_ue4'', PInt 0), (''file_size'', PInt 0)], reader_at ''t'' accepted_asset_bytes 20) \<and>
   read_metadata (reader_at ''t'' accepted_asset_bytes 20) =
     (Inr [(''flags'', PInt 0), (''element_count'', PInt 0), (''bulk_data_size'', PInt 0)],
      reader_at ''t'' accepted_asset_bytes 32) \<and>
   list_all is_u32_int (map snd (tl [(''magic'', PStr ''0xc1832a9e''), (''legacy_version'', PInt 0),
      (''legacy_ue3_version'', PInt 0), (''file_version_ue4'', PInt 0), (''file_size'', PInt 0)])) \<and>
   list_all is_u32_int (map snd [(''flags'', PInt 0), (''element_count'', PInt 0), (''bulk_data_size'', PInt 0)])"
proof -
  have u: "u32_at accepted_asset_bytes 0 = MAGIC"
    by (simp add: u32_at_def accepted_asset_bytes_def MAGIC_def)
  have l: "length accepted_asset_bytes = 32" by (simp add: accepted_asset_bytes_def)
  have lz: "le_nat (replicate n 0) = 0" for n by (induction n) simp_all
  have d: "drop q accepted_asset_bytes = replicate (32 - q) 0" if "4 \<le> q" for q
    unfolding accepted_asset_bytes_def drop_append using that by simp
  have z: "u32_at accepted_asset_bytes q = 0" if "4 \<le> q" for q
    using d [OF that] lz by (simp add: u32_at_def take_replicate)
  have h: "read_header (reader_at ''t'' accepted_asset_bytes 0) =
      (Inr [(''magic'', PStr ''0xc1832a9e''), (''legacy_version'', PInt 0), (''legacy_ue3_version'', PInt 0),
            (''file_version_ue4'', PInt 0), (''file_size'', PInt 0)], reader_at ''t'' accepted_asset_bytes 20)"
    using read_header_ok [of 0 accepted_asset_bytes] u l
    by (simp add: header_dict_def header_at_def z py_hex_MAGIC)
  have m: "read_metadata (reader_at ''t'' accepted_asset_bytes 20) =
      (Inr [(''flags'', PInt 0), (''element_count'', PInt 0), (''bulk_data_size'', PInt 0)],
       reader_at ''t'' accepted_asset_bytes 32)"
    using read_metadata_ok [of 20 accepted_asset_bytes] l
    by (simp add: metadata_dict_def metadata_at_def z)
  show ?thesis
    using h m read_dicts_shape [of "reader_at ''t'' accepted_asset_bytes 0"]
      read_dicts_shape [of "reader_at ''t'' accepted_asset_bytes 20"]
    by blast
qed

end
